theory Spec2Isabelle
  imports Complex_Main "HOL-Library.Product_Lexorder"
begin

section \<open>Embedding service (src/lib/embeddings/embedding-service.ts)\<close>

text \<open>
  A JavaScript string is modelled as a \<^typ>\<open>string\<close>, one \<^typ>\<open>char\<close> per code unit,
  so that \<open>text.substring(0, n)\<close> is \<^term>\<open>take n text\<close> and \<open>text.length\<close> is
  \<^term>\<open>length text\<close>.

  The OpenAI client is outside the repository: \<open>openai.embeddings.create\<close> is a
  parameter \<open>api\<close> that maps the list of inputs of one request to either the error
  it throws (\<open>Inl\<close>) or the list \<open>response.data\<close> of embeddings (\<open>Inr\<close>).
  Whatever a function prints, requests or sleeps is returned as a trace of events;
  a console event keeps the message and leaves out the error object printed after it.
\<close>

datatype 'e failure = RequestFailed 'e | TypeError

datatype event =
    Request "string list"
  | Sleep nat
  | ConsoleLog string
  | ConsoleError string

type_synonym ('e, 'v) embeddings_create = "string list \<Rightarrow> 'e + 'v list"

definition truncate_input :: "string \<Rightarrow> string" where
  "truncate_input text = take 8000 text"

text \<open>
  \<open>generateEmbedding\<close>: one request holding the truncated text; the result is
  \<open>response.data[0].embedding\<close>, which throws a TypeError when \<open>data\<close> is empty.
  The \<open>catch\<close> block logs and rethrows the same error.
\<close>

definition generateEmbedding ::
  "('e, 'v) embeddings_create \<Rightarrow> string \<Rightarrow> event list \<times> ('e failure + 'v)" where
  "generateEmbedding api text =
     (let req = [truncate_input text] in
      case api req of
        Inl e \<Rightarrow>
          ([Request req, ConsoleError ''Error generating embedding:''],
           Inl (RequestFailed e))
      | Inr data \<Rightarrow>
          (case data of
             [] \<Rightarrow>
               ([Request req, ConsoleError ''Error generating embedding:''],
                Inl TypeError)
           | item # _ \<Rightarrow> ([Request req], Inr item)))"

definition batchSize :: nat where
  "batchSize = 100"

text \<open>
  The \<open>for (let i = 0; i < texts.length; i += batchSize)\<close> loop of
  \<open>generateBatchEmbeddings\<close>, with the index, the \<open>embeddings\<close> array and the trace
  as loop state. A request that throws leaves the loop at once.
\<close>

function batch_loop ::
  "('e, 'v) embeddings_create \<Rightarrow> string list \<Rightarrow> nat \<Rightarrow> 'v list \<Rightarrow> event list
   \<Rightarrow> event list \<times> ('e + 'v list)" where
  "batch_loop api texts i embeddings tr =
     (if i < length texts then
        (let batch = take batchSize (drop i texts);
             req = map truncate_input batch
         in case api req of
              Inl e \<Rightarrow> (tr @ [Request req], Inl e)
            | Inr data \<Rightarrow>
                batch_loop api texts (i + batchSize) (embeddings @ data)
                  (tr @ [Request req] @
                     (if i + batchSize < length texts then [Sleep 1000] else [])))
      else (tr, Inr embeddings))"
  by pat_completeness auto
termination
  by (relation "measure (\<lambda>(api, texts, i, embeddings, tr). length texts - i)")
     (auto simp: batchSize_def)

declare batch_loop.simps [simp del]

definition generateBatchEmbeddings ::
  "('e, 'v) embeddings_create \<Rightarrow> string list \<Rightarrow> event list \<times> ('e failure + 'v list)" where
  "generateBatchEmbeddings api texts =
     (case batch_loop api texts 0 [] [] of
        (tr, Inl e) \<Rightarrow>
          (tr @ [ConsoleError ''Error generating batch embeddings:''],
           Inl (RequestFailed e))
      | (tr, Inr embeddings) \<Rightarrow> (tr, Inr embeddings))"

text \<open>The requests of a trace, in the order they were issued.\<close>

fun requests :: "event list \<Rightarrow> string list list" where
  "requests [] = []"
| "requests (Request r # evs) = r # requests evs"
| "requests (_ # evs) = requests evs"

text \<open>The \<open>k\<close>-th batch: the truncated texts at offsets \<open>k * 100 .. k * 100 + 99\<close>.\<close>

definition batch_at :: "string list \<Rightarrow> nat \<Rightarrow> string list" where
  "batch_at texts k = map truncate_input (take batchSize (drop (k * batchSize) texts))"

definition batch_count :: "string list \<Rightarrow> nat" where
  "batch_count texts = (length texts + (batchSize - 1)) div batchSize"

text \<open>
  The offset, in the input list, of the batch of the last request of a trace.
\<close>

definition failed_batch_offset :: "event list \<Rightarrow> nat" where
  "failed_batch_offset tr = (length (requests tr) - 1) * batchSize"

section \<open>JavaScript string helpers\<close>

text \<open>Decimal rendering of a non-negative integer, as a template literal prints it.\<close>

definition digit :: "nat \<Rightarrow> char" where
  "digit d = ''0123456789'' ! (d mod 10)"

function show_nat :: "nat \<Rightarrow> string" where
  "show_nat n = (if n < 10 then [digit n] else show_nat (n div 10) @ [digit (n mod 10)])"
  by pat_completeness auto
termination
  by (relation "measure id") auto

declare show_nat.simps [simp del]

text \<open>
  \<open>s.split(c)\<close> for a one-character separator: the pieces between the occurrences
  of \<open>c\<close>; there is always at least one piece.
\<close>

fun split_char :: "char \<Rightarrow> string \<Rightarrow> string list" where
  "split_char c [] = [[]]"
| "split_char c (x # xs) =
     (if x = c then [] # split_char c xs
      else (case split_char c xs of
              [] \<Rightarrow> [[x]]
            | p # ps \<Rightarrow> (x # p) # ps))"

text \<open>\<open>s.includes(p)\<close>: \<open>p\<close> occurs in \<open>s\<close> as a contiguous substring.\<close>

fun includes_str :: "string \<Rightarrow> string \<Rightarrow> bool" where
  "includes_str [] p = (p = [])"
| "includes_str (x # xs) p = (take (length p) (x # xs) = p \<or> includes_str xs p)"

text \<open>\<open>parts.join(sep)\<close>.\<close>

fun join :: "string \<Rightarrow> string list \<Rightarrow> string" where
  "join sep [] = []"
| "join sep [p] = p"
| "join sep (p # q # ps) = p @ sep @ join sep (q # ps)"

text \<open>
  \<open>s.trim()\<close> on the white space that a \<^typ>\<open>char\<close> can hold: tab, line feed,
  vertical tab, form feed, carriage return, space and no-break space.
\<close>

definition is_space :: "char \<Rightarrow> bool" where
  "is_space c = (c \<in> set [CHR 0x09, CHR 0x0A, CHR 0x0B, CHR 0x0C, CHR 0x0D, CHR 0x20, CHR 0xA0])"

definition trim :: "string \<Rightarrow> string" where
  "trim s = rev (dropWhile is_space (rev (dropWhile is_space s)))"

text \<open>\<open>s.toUpperCase()\<close> on the letters a to z; other characters are kept.\<close>

definition upper_char :: "char \<Rightarrow> char" where
  "upper_char c =
     (case map_of (zip ''abcdefghijklmnopqrstuvwxyz'' ''ABCDEFGHIJKLMNOPQRSTUVWXYZ'') c of
        None \<Rightarrow> c
      | Some u \<Rightarrow> u)"

definition toUpperCase :: "string \<Rightarrow> string" where
  "toUpperCase s = map upper_char s"

section \<open>Database schema and similarity search (supabase migration)\<close>

text \<open>
  The column \<open>source_type\<close> is \<open>TEXT\<close> with a \<open>CHECK\<close> constraint that admits
  five values; the datatype holds exactly those.
\<close>

datatype source_type = Code | Docs | Issues | Design | Config

fun source_type_text :: "source_type \<Rightarrow> string" where
  "source_type_text Code = ''code''"
| "source_type_text Docs = ''docs''"
| "source_type_text Issues = ''issues''"
| "source_type_text Design = ''design''"
| "source_type_text Config = ''config''"

text \<open>
  The \<open>metadata\<close> object of a \<open>ProcessedDocument\<close> (code-processor.ts); it is also
  what the \<open>metadata JSONB\<close> column of a chunk receives.
\<close>

record doc_metadata =
  filePath :: string
  fileType :: string
  projectId :: string
  sourceType :: source_type
  lastModified :: "string option"
  recordId :: "string option"
  table :: "string option"
  fieldNames :: "string list option"

record ProcessedDocument =
  content :: string
  metadata :: doc_metadata

text \<open>
  A row of \<open>document_chunks\<close> without its primary key. \<open>project_id\<close>, \<open>file_path\<close>,
  \<open>contextual_content\<close> and \<open>embedding\<close> are nullable columns. An embedding is a
  list of numbers; the reals stand for the floating-point numbers of the store.
  The two timestamp columns are left out: no modelled operation reads them.
\<close>

record chunk_values =
  project_id :: "string option"
  source_type :: source_type
  file_path :: "string option"
  chunk_content :: string
  contextual_content :: "string option"
  chunk_metadata :: "doc_metadata option"
  embedding :: "real list option"

record knowledge_context =
  kc_project_id :: string
  context_type :: string
  title :: string
  kc_content :: string
  kc_file_path :: string
  tags :: "string list"

text \<open>
  The tables: rows paired with their primary key \<open>id\<close>. A UUID is modelled as a
  natural number, and \<open>gen_random_uuid()\<close> as a counter that never returns the
  same value twice.
\<close>

record database =
  document_chunks :: "(nat \<times> chunk_values) list"
  knowledge_contexts :: "(nat \<times> knowledge_context) list"
  uuid_counter :: nat

datatype store_error = DimensionMismatch | NegativeLimit | Unavailable

definition vector_dimension :: nat where
  "vector_dimension = 1536"

text \<open>
  \<open>.from('document_chunks').upsert(row)\<close>: an \<open>INSERT ... ON CONFLICT (id) DO
  UPDATE\<close>. The primary key \<open>id\<close> is the only unique constraint of the table, so a
  row conflicts only with a row of the same \<open>id\<close>; when the row has no \<open>id\<close>
  the column default \<open>gen_random_uuid()\<close> supplies a new one. A vector whose
  dimension is not that of the column \<open>VECTOR(1536)\<close> is rejected. The client
  returns the error in its result (it does not throw).
\<close>

definition upsert_document_chunk ::
  "database \<Rightarrow> nat option \<Rightarrow> chunk_values \<Rightarrow> database \<times> store_error option" where
  "upsert_document_chunk db given_id vals =
     (if (case embedding vals of None \<Rightarrow> False | Some v \<Rightarrow> length v \<noteq> vector_dimension)
      then (db, Some DimensionMismatch)
      else (case given_id of
              None \<Rightarrow>
                (db\<lparr>document_chunks := document_chunks db @ [(uuid_counter db, vals)],
                    uuid_counter := Suc (uuid_counter db)\<rparr>, None)
            | Some i \<Rightarrow>
                (if i \<in> fst ` set (document_chunks db)
                 then (db\<lparr>document_chunks :=
                         map (\<lambda>(j, old). if j = i then (j, vals) else (j, old))
                           (document_chunks db)\<rparr>, None)
                 else (db\<lparr>document_chunks := document_chunks db @ [(i, vals)]\<rparr>, None))))"

text \<open>
  A \<open>float8\<close> of the database, which is also a JavaScript number: a number, an
  infinity, or NaN; the reals stand for the finite values. The comparison operators
  of the database order them totally, with NaN equal to itself and above every other
  value; \<open>float8_key\<close> maps a value to its place in that order.
\<close>

datatype float8 = NegInfinity | Num real | Infinity | NaN

fun float8_key :: "float8 \<Rightarrow> nat \<times> real" where
  "float8_key NegInfinity = (0, 0)"
| "float8_key (Num x) = (1, x)"
| "float8_key Infinity = (2, 0)"
| "float8_key NaN = (3, 0)"

definition float8_less :: "float8 \<Rightarrow> float8 \<Rightarrow> bool" where
  "float8_less a b = (float8_key a < float8_key b)"

definition float8_le :: "float8 \<Rightarrow> float8 \<Rightarrow> bool" where
  "float8_le a b = (float8_key a \<le> float8_key b)"

text \<open>
  \<open>1 - d\<close> in floating point: the exact difference, rounded by \<open>round8\<close> to the
  nearest \<open>float8\<close>.
\<close>

fun one_minus :: "(real \<Rightarrow> real) \<Rightarrow> float8 \<Rightarrow> float8" where
  "one_minus round8 (Num d) = Num (round8 (1 - d))"
| "one_minus round8 Infinity = NegInfinity"
| "one_minus round8 NegInfinity = Infinity"
| "one_minus round8 NaN = NaN"

text \<open>A row returned by \<open>search_similar_chunks\<close>.\<close>

record search_result =
  r_id :: nat
  r_project_id :: "string option"
  r_source_type :: source_type
  r_file_path :: "string option"
  r_chunk_content :: string
  r_contextual_content :: "string option"
  r_metadata :: "doc_metadata option"
  similarity :: float8

text \<open>
  The SQL function \<open>search_similar_chunks\<close>. The cosine-distance operator
  \<open><=>\<close> of the vector extension is the parameter \<open>cosine_distance\<close>; its result
  is a \<open>float8\<close>, NaN when one of the vectors is the zero vector. The rounding of
  the subtraction is the parameter \<open>round8\<close>. A comparison with a \<open>NULL\<close>
  operand is not true, so a row whose embedding is \<open>NULL\<close>, or whose
  \<open>project_id\<close> is \<open>NULL\<close> under a project filter, is not selected. The filter
  \<open>1 - distance > similarity_threshold\<close> and \<open>ORDER BY distance\<close> use the order
  of the database, in which NaN is above every number. \<open>ORDER BY\<close> leaves the
  order of rows at equal distance open; the model keeps them in table order. A
  negative \<open>LIMIT\<close> is an error of the database.
\<close>

definition candidate_rows ::
  "(real list \<Rightarrow> real list \<Rightarrow> float8) \<Rightarrow> (nat \<times> chunk_values) list \<Rightarrow> real list
   \<Rightarrow> (float8 \<times> nat \<times> chunk_values) list" where
  "candidate_rows cosine_distance rows query_embedding =
     concat (map (\<lambda>(i, dc). case embedding dc of
                                None \<Rightarrow> []
                              | Some v \<Rightarrow> [(cosine_distance v query_embedding, i, dc)]) rows)"

definition to_result :: "(real \<Rightarrow> real) \<Rightarrow> float8 \<times> nat \<times> chunk_values \<Rightarrow> search_result" where
  "to_result round8 = (\<lambda>(d, i, dc).
     \<lparr>r_id = i, r_project_id = project_id dc, r_source_type = source_type dc,
      r_file_path = file_path dc, r_chunk_content = chunk_content dc,
      r_contextual_content = contextual_content dc, r_metadata = chunk_metadata dc,
      similarity = one_minus round8 d\<rparr>)"

definition search_similar_chunks ::
  "(real \<Rightarrow> real) \<Rightarrow> (real list \<Rightarrow> real list \<Rightarrow> float8) \<Rightarrow> database \<Rightarrow> real list
   \<Rightarrow> string option \<Rightarrow> float8 \<Rightarrow> int \<Rightarrow> store_error + search_result list" where
  "search_similar_chunks round8 cosine_distance db query_embedding project_filter
     similarity_threshold match_count =
     (if match_count < 0 then Inl NegativeLimit
      else
        (let selected =
               filter (\<lambda>(d, i, dc).
                         (project_filter = None \<or> (project_id dc \<noteq> None \<and> project_id dc = project_filter))
                         \<and> float8_less similarity_threshold (one_minus round8 d))
                 (candidate_rows cosine_distance (document_chunks db) query_embedding);
             ordered = sort_key (\<lambda>(d, i, dc). float8_key d) selected
         in Inr (map (to_result round8) (take (nat match_count) ordered))))"

text \<open>
  The order in which two scores may follow each other in a result: a number is
  followed by a number that is not larger or by NaN, and NaN only by NaN.
\<close>

definition may_precede :: "float8 \<Rightarrow> float8 \<Rightarrow> bool" where
  "may_precede a b = (b = NaN \<or> (a \<noteq> NaN \<and> float8_le b a))"

section \<open>Code processor (src/lib/processors/code-processor.ts)\<close>

text \<open>
  \<open>path.basename\<close> and \<open>path.extname\<close> of Node, for the paths that
  \<open>git ls-files\<close> prints (no trailing slash): the extension starts at the last dot
  of the base name, unless that dot is its first character or the base name is
  \<open>..\<close>.
\<close>

definition basename :: "string \<Rightarrow> string" where
  "basename p = rev (takeWhile (\<lambda>c. c \<noteq> CHR ''/'') (rev p))"

definition extname :: "string \<Rightarrow> string" where
  "extname p =
     (let b = basename p;
          e = rev (takeWhile (\<lambda>c. c \<noteq> CHR ''.'') (rev b))
      in if CHR ''.'' \<notin> set b then []
         else if Suc (length e) = length b then []
         else if b = ''..'' then []
         else CHR ''.'' # e)"

definition ignoredPatterns :: "string list" where
  "ignoredPatterns =
     [''node_modules/'', ''.git/'', ''dist/'', ''build/'', ''.next/'', ''coverage/'',
      ''*.log'', ''*.lock'', ''package-lock.json'', ''yarn.lock'']"

definition processedExtensions :: "string list" where
  "processedExtensions =
     [''.ts'', ''.tsx'', ''.js'', ''.jsx'', ''.py'', ''.java'', ''.cpp'', ''.c'',
      ''.md'', ''.mdx'', ''.txt'', ''.json'', ''.yaml'', ''.yml'', ''.sql'', ''.prisma'']"

definition shouldProcessFile :: "string \<Rightarrow> bool" where
  "shouldProcessFile path =
     (if list_ex (\<lambda>pattern. includes_str path pattern) ignoredPatterns then False
      else extname path \<in> set processedExtensions)"

definition getSourceType :: "string \<Rightarrow> source_type" where
  "getSourceType path =
     (let ext = extname path; fileName = basename path
      in if ext \<in> set [''.md'', ''.mdx'', ''.txt''] then Docs
         else if ext \<in> set [''.json'', ''.yaml'', ''.yml'', ''.env'']
                 \<or> fileName \<in> set [''package.json'', ''tsconfig.json'', ''next.config.js'']
         then Config
         else Code)"

text \<open>
  The origin path of chunk \<open>i\<close> (counted from 0) of a file that was split into
  \<open>n\<close> chunks: the file name, followed by \<open>#chunk-\<close> and \<open>i + 1\<close> when
  \<open>chunks.length > 1\<close>.
\<close>

definition chunk_file_path :: "string \<Rightarrow> nat \<Rightarrow> nat \<Rightarrow> string" where
  "chunk_file_path file n i = file @ (if n > 1 then ''#chunk-'' @ show_nat (i + 1) else [])"

definition chunk_documents ::
  "string \<Rightarrow> string \<Rightarrow> string \<Rightarrow> string list \<Rightarrow> ProcessedDocument list" where
  "chunk_documents file pid modified chunks =
     map (\<lambda>i. \<lparr>content = chunks ! i,
               metadata = \<lparr>filePath = chunk_file_path file (length chunks) i,
                           fileType = extname file,
                           projectId = pid,
                           sourceType = getSourceType file,
                           lastModified = Some modified,
                           recordId = None, table = None, fieldNames = None\<rparr>\<rparr>)
       [0..<length chunks]"

text \<open>
  The repository as the processor sees it: the output of \<open>git ls-files\<close>, and for
  a tracked file its text (\<open>fs.readFile\<close>) and its modification time
  (\<open>fs.stat\<close>, as an ISO string). Each may throw. The text splitter is a class of
  the LangChain library, configured with chunk size 1000, overlap 200 and a list of
  separators; \<open>createDocuments\<close> is the parameter \<open>splitter\<close>, from a text to the
  \<open>pageContent\<close> of its chunks.
\<close>

record 'e repository =
  ls_files :: "'e + string"
  readFile :: "string \<Rightarrow> 'e + string"
  mtime :: "string \<Rightarrow> 'e + string"

fun process_files ::
  "(string \<Rightarrow> string list) \<Rightarrow> 'e repository \<Rightarrow> string \<Rightarrow> string list
   \<Rightarrow> ProcessedDocument list \<Rightarrow> 'e + ProcessedDocument list" where
  "process_files splitter repo pid [] documents = Inr documents"
| "process_files splitter repo pid (file # rest) documents =
     (if shouldProcessFile file then
        (case readFile repo file of
           Inl e \<Rightarrow> Inl e
         | Inr text \<Rightarrow>
             (case mtime repo file of
                Inl e \<Rightarrow> Inl e
              | Inr modified \<Rightarrow>
                  process_files splitter repo pid rest
                    (documents @ chunk_documents file pid modified (splitter text))))
      else process_files splitter repo pid rest documents)"

definition processCodeRepository ::
  "(string \<Rightarrow> string list) \<Rightarrow> 'e repository \<Rightarrow> string
   \<Rightarrow> event list \<times> ('e + ProcessedDocument list)" where
  "processCodeRepository splitter repo pid =
     (case ls_files repo of
        Inl e \<Rightarrow> ([ConsoleError ''Error processing repository:''], Inl e)
      | Inr files \<Rightarrow>
          (let fileList = filter (\<lambda>f. f \<noteq> []) (split_char CHR 0x0A (trim files))
           in case process_files splitter repo pid fileList [] of
                Inl e \<Rightarrow> ([ConsoleError ''Error processing repository:''], Inl e)
              | Inr documents \<Rightarrow> ([], Inr documents)))"

section \<open>Airtable processor (src/lib/processors/airtable-processor.ts)\<close>

text \<open>
  A field value of a record is a string or something else (a number, a boolean, a
  list of attachments or links); \<open>record.fields\<close> is the list of its entries in
  the order \<open>Object.entries\<close> yields them.
\<close>

datatype field_value = FString string | FNumber int | FBool bool | FList "string list"

record airtable_record =
  record_id :: string
  record_fields :: "(string \<times> field_value) list"

text \<open>
  \<open>Object.entries(fields).filter(([key, value]) => typeof value === 'string' &&
  value.length > 10)\<close>: the entries that pass, with their string.
\<close>

fun text_entries :: "(string \<times> field_value) list \<Rightarrow> (string \<times> string) list" where
  "text_entries [] = []"
| "text_entries ((key, FString s) # es) =
     (if length s > 10 then (key, s) # text_entries es else text_entries es)"
| "text_entries ((key, _) # es) = text_entries es"

definition record_content :: "(string \<times> field_value) list \<Rightarrow> string" where
  "record_content fs =
     join [CHR 0x0A, CHR 0x0A] (map (\<lambda>(key, s). key @ '': '' @ s) (text_entries fs))"

text \<open>The document pushed for a record whose content is \<open>text\<close>.\<close>

definition airtable_document ::
  "string \<Rightarrow> string \<Rightarrow> airtable_record \<Rightarrow> string \<Rightarrow> ProcessedDocument" where
  "airtable_document tableName pid r text =
     \<lparr>content = text,
      metadata = \<lparr>filePath = ''airtable/'' @ tableName @ ''/'' @ record_id r,
                  fileType = ''airtable'',
                  projectId = pid,
                  sourceType = Design,
                  lastModified = None,
                  recordId = Some (record_id r),
                  table = Some tableName,
                  fieldNames = Some (map fst (record_fields r))\<rparr>\<rparr>"

fun process_records ::
  "string \<Rightarrow> string \<Rightarrow> airtable_record list \<Rightarrow> ProcessedDocument list
   \<Rightarrow> ProcessedDocument list" where
  "process_records tableName pid [] documents = documents"
| "process_records tableName pid (r # rs) documents =
     (let text = record_content (record_fields r)
      in if trim text \<noteq> [] then
           process_records tableName pid rs (documents @ [airtable_document tableName pid r text])
         else process_records tableName pid rs documents)"

text \<open>
  \<open>processTable\<close>; \<open>select\<close> stands for \<open>this.base(tableName).select().all()\<close>.
\<close>

definition processTable ::
  "(string \<Rightarrow> 'e + airtable_record list) \<Rightarrow> string \<Rightarrow> string
   \<Rightarrow> event list \<times> ('e + ProcessedDocument list)" where
  "processTable select tableName pid =
     (case select tableName of
        Inl e \<Rightarrow> ([ConsoleError (''Error processing Airtable table '' @ tableName @ '':'')], Inl e)
      | Inr records \<Rightarrow> ([], Inr (process_records tableName pid records [])))"

text \<open>
  The content that the interface description gives for a record: one
  \<open>field: value\<close> line for every string-valued field.
\<close>

fun string_entries :: "(string \<times> field_value) list \<Rightarrow> (string \<times> string) list" where
  "string_entries [] = []"
| "string_entries ((key, FString s) # es) = (key, s) # string_entries es"
| "string_entries ((key, _) # es) = string_entries es"

definition spec_record_content :: "(string \<times> field_value) list \<Rightarrow> string" where
  "spec_record_content fs =
     join [CHR 0x0A] (map (\<lambda>(key, s). key @ '': '' @ s) (string_entries fs))"

section \<open>Knowledge-base generator (src/lib/knowledge-base/generator.ts)\<close>

text \<open>
  An object used as a dictionary of arrays: \<open>if (!acc[k]) acc[k] = []; acc[k].push(x)\<close>.
  The association list keeps the keys in the order of their first insertion, the
  order in which \<open>Object.entries\<close> yields keys that are not array indices.
\<close>

fun group_push :: "('k \<times> 'a list) list \<Rightarrow> 'k \<Rightarrow> 'a \<Rightarrow> ('k \<times> 'a list) list" where
  "group_push [] k x = [(k, [x])]"
| "group_push ((k', xs) # gs) k x =
     (if k' = k then (k', xs @ [x]) # gs else (k', xs) # group_push gs k x)"

definition group_by :: "('a \<Rightarrow> 'k) \<Rightarrow> 'a list \<Rightarrow> ('k \<times> 'a list) list" where
  "group_by key xs = foldl (\<lambda>acc x. group_push acc (key x) x) [] xs"

text \<open>
  The result \<open>{ data, error }\<close> of \<open>supabase.rpc('search_similar_chunks', ...)\<close>.
\<close>

record rpc_response =
  rpc_data :: "search_result list option"
  rpc_error :: "store_error option"

text \<open>
  What the generator takes from outside: the embeddings request, the remote call
  of the search function on the current database, the clock (\<open>Date.now()\<close> and
  \<open>new Date().toISOString()\<close>), \<open>Number.prototype.toFixed(1)\<close>, \<open>path.join\<close>, and
  whether \<open>fs.writeFile\<close> succeeds on a path. A JavaScript number is a
  \<^typ>\<open>float8\<close>; \<open>x * 100\<close> is \<open>times100\<close>.
\<close>

fun times100 :: "float8 \<Rightarrow> float8" where
  "times100 (Num x) = Num (x * 100)"
| "times100 Infinity = Infinity"
| "times100 NegInfinity = NegInfinity"
| "times100 NaN = NaN"

record 'e environment =
  openai_create :: "('e, real list) embeddings_create"
  search_rpc :: "database \<Rightarrow> real list \<Rightarrow> string option \<Rightarrow> float8 \<Rightarrow> int \<Rightarrow> rpc_response"
  date_now :: nat
  date_iso :: string
  toFixed1 :: "float8 \<Rightarrow> string"
  path_join :: "string \<Rightarrow> string \<Rightarrow> string"
  writeFile_ok :: "string \<Rightarrow> bool"

record world =
  store :: database
  files :: "string \<rightharpoonup> string"

datatype 'e thrown = EmbeddingError "'e failure" | RpcError store_error | WriteError string

definition origin_label :: "string option \<Rightarrow> string" where
  "origin_label p = (case p of None \<Rightarrow> ''Unknown'' | Some s \<Rightarrow> if s = [] then ''Unknown'' else s)"

text \<open>The body of the inner \<open>forEach\<close>: what one chunk adds to \<open>content\<close>.\<close>

definition append_item :: "(float8 \<Rightarrow> string) \<Rightarrow> string \<Rightarrow> search_result \<times> nat \<Rightarrow> string" where
  "append_item fixed text = (\<lambda>(chunk, index).
     text
     @ ''#### Source '' @ show_nat (index + 1) @ '': '' @ origin_label (r_file_path chunk) @ [CHR 0x0A]
     @ ''Similarity: '' @ fixed (times100 (similarity chunk)) @ ''%'' @ [CHR 0x0A, CHR 0x0A]
     @ ''```'' @ [CHR 0x0A]
     @ r_chunk_content chunk
     @ [CHR 0x0A] @ ''```'' @ [CHR 0x0A, CHR 0x0A])"

text \<open>The body of the loop over \<open>Object.entries(groupedChunks)\<close>.\<close>

definition append_group ::
  "(float8 \<Rightarrow> string) \<Rightarrow> string \<Rightarrow> source_type \<times> search_result list \<Rightarrow> string" where
  "append_group fixed text = (\<lambda>(sourceType, chunks).
     foldl (append_item fixed)
       (text @ ''### '' @ toUpperCase (source_type_text sourceType) @ '' Sources'' @ [CHR 0x0A, CHR 0x0A])
       (zip chunks [0..<length chunks]))"

definition query_context_content ::
  "(float8 \<Rightarrow> string) \<Rightarrow> string \<Rightarrow> string \<Rightarrow> search_result list \<Rightarrow> string" where
  "query_context_content fixed query stamp relevantChunks =
     foldl (append_group fixed)
       (''# Context for: '' @ [CHR 0x22] @ query @ [CHR 0x22, CHR 0x0A, CHR 0x0A]
        @ ''Generated: '' @ stamp @ [CHR 0x0A, CHR 0x0A]
        @ ''## Relevant Information'' @ [CHR 0x0A, CHR 0x0A])
       (group_by r_source_type relevantChunks)"

text \<open>
  \<open>.from('knowledge_contexts').insert(row)\<close>; the result of the call is not looked at.
\<close>

definition insert_knowledge_context :: "database \<Rightarrow> knowledge_context \<Rightarrow> database" where
  "insert_knowledge_context db row =
     db\<lparr>knowledge_contexts := knowledge_contexts db @ [(uuid_counter db, row)],
        uuid_counter := Suc (uuid_counter db)\<rparr>"

text \<open>
  \<open>generateQueryContext\<close>: the trace, the world after the call, and the error
  thrown, if any. The search is called with threshold 0.6 and at most 20 rows.
\<close>

definition generateQueryContext ::
  "'e environment \<Rightarrow> world \<Rightarrow> string \<Rightarrow> string \<Rightarrow> string
   \<Rightarrow> event list \<times> world \<times> 'e thrown option" where
  "generateQueryContext env w pid query outputPath =
     (case generateEmbedding (openai_create env) query of
        (tr, Inl f) \<Rightarrow>
          (tr @ [ConsoleError ''Error generating query context:''], w, Some (EmbeddingError f))
      | (tr, Inr queryEmbedding) \<Rightarrow>
          (let response = search_rpc env (store w) queryEmbedding (Some pid) (Num (6 / 10)) 20 in
           case rpc_error response of
             Some e \<Rightarrow>
               (tr @ [ConsoleError ''Error generating query context:''], w, Some (RpcError e))
           | None \<Rightarrow>
               (case rpc_data response of
                  None \<Rightarrow> (tr @ [ConsoleLog (''No relevant chunks found for query: '' @ query)], w, None)
                | Some relevantChunks \<Rightarrow>
                    (if length relevantChunks = 0
                     then (tr @ [ConsoleLog (''No relevant chunks found for query: '' @ query)], w, None)
                     else
                       (let fileName = ''query-context-'' @ show_nat (date_now env) @ ''.md'';
                            filePath = path_join env outputPath fileName;
                            text = query_context_content (toFixed1 env) query (date_iso env) relevantChunks
                        in if \<not> writeFile_ok env filePath
                           then (tr @ [ConsoleError ''Error generating query context:''], w,
                                 Some (WriteError filePath))
                           else
                             (tr @ [ConsoleLog (''Generated query context: '' @ filePath)],
                              \<lparr>store = insert_knowledge_context (store w)
                                         \<lparr>kc_project_id = pid, context_type = ''query'',
                                          title = ''Context for: '' @ query, kc_content = text,
                                          kc_file_path = filePath, tags = [''query'', ''generated'']\<rparr>,
                               files = (files w)(filePath \<mapsto> text)\<rparr>,
                              None))))))"

text \<open>
  The remote call when nothing goes wrong between client and database: the rows of
  \<open>search_similar_chunks\<close>, or its error.
\<close>

definition supabase_rpc ::
  "(real \<Rightarrow> real) \<Rightarrow> (real list \<Rightarrow> real list \<Rightarrow> float8)
   \<Rightarrow> database \<Rightarrow> real list \<Rightarrow> string option \<Rightarrow> float8 \<Rightarrow> int \<Rightarrow> rpc_response" where
  "supabase_rpc round8 cosine_distance db q pf t n =
     (case search_similar_chunks round8 cosine_distance db q pf t n of
        Inl e \<Rightarrow> \<lparr>rpc_data = None, rpc_error = Some e\<rparr>
      | Inr rows \<Rightarrow> \<lparr>rpc_data = Some rows, rpc_error = None\<rparr>)"

text \<open>
  The format of the context document in the words of the interface description:
  one section per source type, in the order in which the types first occur among
  the results, each with its results in the order of the search.
\<close>

definition spec_item :: "(float8 \<Rightarrow> string) \<Rightarrow> search_result \<times> nat \<Rightarrow> string" where
  "spec_item fixed = (\<lambda>(chunk, index).
     ''#### Source '' @ show_nat (index + 1) @ '': '' @ origin_label (r_file_path chunk) @ [CHR 0x0A]
     @ ''Similarity: '' @ fixed (times100 (similarity chunk)) @ ''%'' @ [CHR 0x0A, CHR 0x0A]
     @ ''```'' @ [CHR 0x0A] @ r_chunk_content chunk @ [CHR 0x0A] @ ''```'' @ [CHR 0x0A, CHR 0x0A])"

definition spec_section :: "(float8 \<Rightarrow> string) \<Rightarrow> source_type \<Rightarrow> search_result list \<Rightarrow> string" where
  "spec_section fixed t chunks =
     ''### '' @ toUpperCase (source_type_text t) @ '' Sources'' @ [CHR 0x0A, CHR 0x0A]
     @ concat (map (spec_item fixed) (zip chunks [0..<length chunks]))"

definition first_occurrences :: "'a list \<Rightarrow> 'a list" where
  "first_occurrences xs = rev (remdups (rev xs))"

definition spec_sections :: "(float8 \<Rightarrow> string) \<Rightarrow> search_result list \<Rightarrow> string" where
  "spec_sections fixed results =
     concat (map (\<lambda>t. spec_section fixed t (filter (\<lambda>r. r_source_type r = t) results))
               (first_occurrences (map r_source_type results)))"

definition spec_heading :: "string \<Rightarrow> string \<Rightarrow> string" where
  "spec_heading query stamp =
     ''# Context for: '' @ [CHR 0x22] @ query @ [CHR 0x22, CHR 0x0A, CHR 0x0A]
     @ ''Generated: '' @ stamp @ [CHR 0x0A, CHR 0x0A]"

definition spec_context_document ::
  "(float8 \<Rightarrow> string) \<Rightarrow> string \<Rightarrow> string \<Rightarrow> search_result list \<Rightarrow> string" where
  "spec_context_document fixed query stamp results =
     spec_heading query stamp @ spec_sections fixed results"

text \<open>
  The grouping of \<open>generateCodeSummaries\<close>: the key of a chunk is
  \<open>chunk.file_path?.split('#')[0] || 'unknown'\<close>.
\<close>

definition group_key :: "string option \<Rightarrow> string" where
  "group_key p =
     (case p of
        None \<Rightarrow> ''unknown''
      | Some s \<Rightarrow>
          (case split_char CHR ''#'' s of
             [] \<Rightarrow> ''unknown''
           | piece # _ \<Rightarrow> if piece = [] then ''unknown'' else piece))"

definition fileGroups :: "chunk_values list \<Rightarrow> (string \<times> chunk_values list) list" where
  "fileGroups codeChunks = group_by (\<lambda>chunk. group_key (file_path chunk)) codeChunks"

section \<open>Ingestion script (scripts/ingest-project.ts)\<close>

text \<open>The row that the script hands to \<open>upsert\<close> for a document; it has no \<open>id\<close>.\<close>

definition chunk_of_document :: "ProcessedDocument \<Rightarrow> real list \<Rightarrow> chunk_values" where
  "chunk_of_document doc v =
     \<lparr>project_id = Some (projectId (metadata doc)),
      source_type = sourceType (metadata doc),
      file_path = Some (filePath (metadata doc)),
      chunk_content = content doc,
      contextual_content = None,
      chunk_metadata = Some (metadata doc),
      embedding = Some v\<rparr>"

text \<open>
  The body of \<open>for (const doc of batch)\<close>: embed, then write. An error thrown by
  the embedding is caught and logged with the path of the document; the result of
  \<open>upsert\<close>, which holds the error of a failed write, is not looked at.
\<close>

definition ingest_document ::
  "('e, real list) embeddings_create \<Rightarrow> database \<Rightarrow> ProcessedDocument \<Rightarrow> event list \<times> database" where
  "ingest_document api db doc =
     (case generateEmbedding api (content doc) of
        (tr, Inl f) \<Rightarrow>
          (tr @ [ConsoleError (''Error processing document '' @ filePath (metadata doc) @ '':'')], db)
      | (tr, Inr v) \<Rightarrow>
          (tr, fst (upsert_document_chunk db None (chunk_of_document doc v))))"

fun ingest_batch ::
  "('e, real list) embeddings_create \<Rightarrow> database \<Rightarrow> ProcessedDocument list \<Rightarrow> event list \<times> database" where
  "ingest_batch api db [] = ([], db)"
| "ingest_batch api db (doc # docs) =
     (case ingest_document api db doc of
        (tr, db') \<Rightarrow> (case ingest_batch api db' docs of (tr', db'') \<Rightarrow> (tr @ tr', db'')))"

text \<open>
  The loop \<open>for (let i = 0; i < processors.length; i += 50)\<close>, with a pause of one
  second after every batch.
\<close>

function ingest_loop ::
  "('e, real list) embeddings_create \<Rightarrow> ProcessedDocument list \<Rightarrow> nat \<Rightarrow> database \<Rightarrow> event list
   \<Rightarrow> event list \<times> database" where
  "ingest_loop api processors i db tr =
     (if i < length processors then
        (let batch = take 50 (drop i processors);
             line = ''Processing batch '' @ show_nat (i div 50 + 1) @ ''/''
                    @ show_nat ((length processors + 49) div 50)
         in case ingest_batch api db batch of
              (tr', db') \<Rightarrow>
                ingest_loop api processors (i + 50) db' (tr @ [ConsoleLog line] @ tr' @ [Sleep 1000]))
      else (tr, db))"
  by pat_completeness auto
termination
  by (relation "measure (\<lambda>(api, processors, i, db, tr). length processors - i)") auto

declare ingest_loop.simps [simp del]

text \<open>The two columns of the row of \<open>projects\<close> that the script reads.\<close>

record project =
  project_uuid :: string
  project_name :: string

text \<open>
  \<open>ingestProject\<close> from the point where the documents are known. \<open>prepared\<close> is the
  outcome of the first part of the \<open>try\<close> block (looking up or creating the
  project, constructing the services, running the processors): the project and the
  documents, or the error thrown there. \<open>generateContextFiles\<close> is the call that
  follows the loop, on the id of the project; it may throw. The \<open>catch\<close> block
  ends the process with status 1; a run that reaches the end of the function ends
  with status 0.
\<close>

definition ingestProject ::
  "('e, real list) embeddings_create \<Rightarrow> ('x + project \<times> ProcessedDocument list)
   \<Rightarrow> (string \<Rightarrow> database \<Rightarrow> 'x option)
   \<Rightarrow> database \<Rightarrow> event list \<times> database \<times> nat" where
  "ingestProject api prepared generateContextFiles db =
     (case prepared of
        Inl e \<Rightarrow>
          ([ConsoleLog ''Starting project ingestion...'',
            ConsoleError ''Error during ingestion:''], db, 1)
      | Inr (proj, processors) \<Rightarrow>
          (case ingest_loop api processors 0 db
                  [ConsoleLog ''Starting project ingestion...'',
                   ConsoleLog (''Processing '' @ show_nat (length processors) @ '' documents...'')] of
             (tr, db') \<Rightarrow>
               (case generateContextFiles (project_uuid proj) db' of
                  Some e \<Rightarrow>
                    (tr @ [ConsoleLog ''Generating knowledge base files...'',
                           ConsoleError ''Error during ingestion:''], db', 1)
                | None \<Rightarrow>
                    (tr @ [ConsoleLog ''Generating knowledge base files...'',
                           ConsoleLog (''Successfully ingested project: '' @ project_name proj),
                           ConsoleLog (''Knowledge base files generated in: knowledge-base/contexts/''
                                       @ project_uuid proj)],
                     db', 0))))"

text \<open>The messages that \<open>console.error\<close> printed, in order.\<close>

fun console_errors :: "event list \<Rightarrow> string list" where
  "console_errors [] = []"
| "console_errors (ConsoleError m # evs) = m # console_errors evs"
| "console_errors (_ # evs) = console_errors evs"

text \<open>Whether the embedding of a document succeeds, and the row it then gives.\<close>

definition embeds :: "('e, real list) embeddings_create \<Rightarrow> ProcessedDocument \<Rightarrow> bool" where
  "embeds api doc = (case snd (generateEmbedding api (content doc)) of Inl f \<Rightarrow> False | Inr v \<Rightarrow> True)"

definition embedded_row ::
  "('e, real list) embeddings_create \<Rightarrow> ProcessedDocument \<Rightarrow> chunk_values list" where
  "embedded_row api doc =
     (case snd (generateEmbedding api (content doc)) of
        Inl f \<Rightarrow> []
      | Inr v \<Rightarrow> if length v = vector_dimension then [chunk_of_document doc v] else [])"

section \<open>Example inputs\<close>

text \<open>
  An embeddings request that fails on every request holding the text \<open>bad\<close> and
  else answers each text with a vector of the dimension of the store; a request
  that answers with the vector of the first text only; the cosine distance of
  vectors of length one, which is NaN when one of the two is the zero vector; a
  small table of chunks, and the same table with a chunk whose embedding is the
  zero vector; an environment whose embeddings are the unit vector of the first
  axis and whose \<open>toFixed(1)\<close> prints a non-negative number rounded to one
  decimal; a repository with two tracked files; a table with one record.
\<close>

definition example_api :: "(string, real list) embeddings_create" where
  "example_api req =
     (if ''bad'' \<in> set req then Inl ''rate limit''
      else Inr (map (\<lambda>t. replicate 1536 (real (length t))) req))"

definition first_only_api :: "(string, real list) embeddings_create" where
  "first_only_api req = Inr (map (\<lambda>t. [real (length t)]) (take 1 req))"

definition unit_cosine_distance :: "real list \<Rightarrow> real list \<Rightarrow> float8" where
  "unit_cosine_distance v q =
     (if list_all (\<lambda>x. x = 0) v \<or> list_all (\<lambda>x. x = 0) q then NaN
      else Num (1 - sum_list (map (\<lambda>(a, b). a * b) (zip v q))))"

definition example_chunk :: "string \<Rightarrow> source_type \<Rightarrow> string \<Rightarrow> string \<Rightarrow> real list \<Rightarrow> chunk_values" where
  "example_chunk pid t path text v =
     \<lparr>project_id = Some pid, source_type = t, file_path = Some path, chunk_content = text,
      contextual_content = None, chunk_metadata = None, embedding = Some v\<rparr>"

definition example_db :: database where
  "example_db =
     \<lparr>document_chunks =
        [(0, example_chunk ''p1'' Code ''a.ts'' ''alpha'' [3 / 5, 4 / 5]),
         (1, example_chunk ''p1'' Docs ''b.md'' ''beta'' [4 / 5, 3 / 5]),
         (2, example_chunk ''p2'' Code ''c.ts'' ''gamma'' [1, 0]),
         (3, example_chunk ''p1'' Code ''d.ts'' ''delta'' [0, 1]),
         (4, example_chunk ''p1'' Code ''e.ts'' ''epsilon'' [12 / 13, 5 / 13]),
         (5, example_chunk ''p1'' Code ''g.ts'' ''eta'' [24 / 25, 7 / 25])],
      knowledge_contexts = [],
      uuid_counter = 6\<rparr>"

definition example_db_zero :: database where
  "example_db_zero =
     example_db\<lparr>document_chunks :=
                  document_chunks example_db @ [(6, example_chunk ''p1'' Code ''z.ts'' ''zeta'' [0, 0])],
                uuid_counter := 7\<rparr>"

definition empty_db :: database where
  "empty_db = \<lparr>document_chunks = [], knowledge_contexts = [], uuid_counter = 0\<rparr>"

definition example_document :: "string \<Rightarrow> string \<Rightarrow> ProcessedDocument" where
  "example_document path text =
     \<lparr>content = text,
      metadata = \<lparr>filePath = path, fileType = extname path, projectId = ''p1'',
                  sourceType = getSourceType path, lastModified = None,
                  recordId = None, table = None, fieldNames = None\<rparr>\<rparr>"

fun example_toFixed1 :: "float8 \<Rightarrow> string" where
  "example_toFixed1 (Num x) =
     show_nat (nat \<lfloor>x * 10 + 1 / 2\<rfloor> div 10) @ ''.'' @ show_nat (nat \<lfloor>x * 10 + 1 / 2\<rfloor> mod 10)"
| "example_toFixed1 Infinity = ''Infinity''"
| "example_toFixed1 NegInfinity = ''-Infinity''"
| "example_toFixed1 NaN = ''NaN''"

definition example_environment :: "string environment" where
  "example_environment =
     \<lparr>openai_create = (\<lambda>req. Inr (map (\<lambda>t. [1, 0]) req)),
      search_rpc = supabase_rpc (\<lambda>x. x) unit_cosine_distance,
      date_now = 1700000000000,
      date_iso = ''2023-11-14T22:13:20.000Z'',
      toFixed1 = example_toFixed1,
      path_join = (\<lambda>a b. a @ ''/'' @ b),
      writeFile_ok = (\<lambda>p. True)\<rparr>"

definition example_world :: world where
  "example_world = \<lparr>store = example_db, files = Map.empty\<rparr>"

definition example_repository :: "string repository" where
  "example_repository =
     \<lparr>ls_files = Inr (''src/a#b.ts'' @ [CHR 0x0A] @ ''src/a#c.ts'' @ [CHR 0x0A]),
      readFile = (\<lambda>f. Inr (''// '' @ f)),
      mtime = (\<lambda>f. Inr ''2024-01-01T00:00:00.000Z'')\<rparr>"

definition example_record :: airtable_record where
  "example_record =
     \<lparr>record_id = ''rec1'',
      record_fields = [(''Name'', FString ''Ada''), (''Notes'', FString ''a long description''),
                       (''Count'', FNumber 3)]\<rparr>"

definition example_table :: "string \<Rightarrow> string + airtable_record list" where
  "example_table tableName = (if tableName = ''Tasks'' then Inr [example_record] else Inl ''not found'')"

text \<open>What \<open>console.error\<close> prints for a document: nothing when its embedding succeeds.\<close>

definition failure_log :: "('e, real list) embeddings_create \<Rightarrow> ProcessedDocument \<Rightarrow> string list" where
  "failure_log api doc =
     (if embeds api doc then []
      else [''Error generating embedding:'',
            ''Error processing document '' @ filePath (metadata doc) @ '':''])"

text \<open>A context-file generation that does not throw; three documents, the second of
  which cannot be embedded by \<open>example_api\<close>.\<close>

definition no_throw :: "string \<Rightarrow> database \<Rightarrow> string option" where
  "no_throw pid db = None"

definition example_project :: project where
  "example_project = \<lparr>project_uuid = ''p1'', project_name = ''demo''\<rparr>"

definition example_documents :: "ProcessedDocument list" where
  "example_documents =
     [example_document ''a.ts'' ''alpha'', example_document ''b.ts'' ''bad'',
      example_document ''c.ts'' ''gamma'']"

section \<open>Properties of the embedding service\<close>

lemma requests_append: "requests (a @ b) = requests a @ requests b"
  by (induction a rule: requests.induct) simp_all

lemma upt_shift: "[0..<Suc m] = 0 # map Suc [0..<m]"
  by (simp add: upt_conv_Cons map_Suc_upt del: upt_Suc)

lemma batches_step:
  assumes "i < length texts"
  shows "(length texts - i + (batchSize - 1)) div batchSize
         = Suc ((length texts - (i + batchSize) + (batchSize - 1)) div batchSize)"
  using assms unfolding batchSize_def by (cases "length texts - i \<le> 100") auto

lemma batch_at_fun:
  "batch_at texts = (\<lambda>j. map truncate_input (take batchSize (drop (j * batchSize) texts)))"
  by (rule ext) (simp add: batch_at_def)

text \<open>A run of the loop that returns has issued one request for every batch still ahead.\<close>

lemma batch_loop_requests_ok:
  assumes "batch_loop api texts i embs tr = (tr', Inr vs)"
  shows "requests tr' = requests tr @
           map (\<lambda>j. map truncate_input (take batchSize (drop (i + j * batchSize) texts)))
             [0..<(length texts - i + (batchSize - 1)) div batchSize]"
  using assms
proof (induction api texts i embs tr rule: batch_loop.induct)
  case (1 api texts i embeddings tr)
  show ?case
  proof (cases "i < length texts")
    case False
    with "1.prems" show ?thesis
      by (simp add: batch_loop.simps [of api texts i] batchSize_def)
  next
    case True
    let ?req = "map truncate_input (take batchSize (drop i texts))"
    from True "1.prems" obtain data where d: "api ?req = Inr data"
      by (cases "api ?req") (simp_all add: batch_loop.simps [of api texts i])
    let ?tr = "tr @ [Request ?req] @ (if i + batchSize < length texts then [Sleep 1000] else [])"
    from True d "1.prems"
    have rec: "batch_loop api texts (i + batchSize) (embeddings @ data) ?tr = (tr', Inr vs)"
      by (simp add: batch_loop.simps [of api texts i])
    have ih: "requests tr' = requests ?tr @
           map (\<lambda>j. map truncate_input (take batchSize (drop (i + batchSize + j * batchSize) texts)))
             [0..<(length texts - (i + batchSize) + (batchSize - 1)) div batchSize]"
      using "1.IH" [OF True refl refl d rec] .
    have rq: "requests ?tr = requests tr @ [?req]"
      by (simp add: requests_append)
    show ?thesis
      unfolding ih rq batches_step [OF True] upt_shift
      by (simp add: comp_def add.assoc add.commute add.left_commute)
  qed
qed

text \<open>
  When the service answers a request with one vector per input, each depending on
  its text alone, a run that returns has collected exactly those vectors.
\<close>

lemma batch_loop_values:
  assumes "batch_loop api texts i embs tr = (tr', Inr vs)"
    and "\<And>xs ws. api xs = Inr ws \<Longrightarrow> ws = map model xs"
  shows "vs = embs @ map model (map truncate_input (drop i texts))"
  using assms
proof (induction api texts i embs tr rule: batch_loop.induct)
  case (1 api texts i embeddings tr)
  show ?case
  proof (cases "i < length texts")
    case False
    with "1.prems"(1) show ?thesis
      by (simp add: batch_loop.simps [of api texts i])
  next
    case True
    let ?req = "map truncate_input (take batchSize (drop i texts))"
    from True "1.prems"(1) obtain data where d: "api ?req = Inr data"
      by (cases "api ?req") (simp_all add: batch_loop.simps [of api texts i])
    let ?tr = "tr @ [Request ?req] @ (if i + batchSize < length texts then [Sleep 1000] else [])"
    from True d "1.prems"(1)
    have rec: "batch_loop api texts (i + batchSize) (embeddings @ data) ?tr = (tr', Inr vs)"
      by (simp add: batch_loop.simps [of api texts i])
    have ih: "vs = (embeddings @ data) @ map model (map truncate_input (drop (i + batchSize) texts))"
      using "1.IH" [OF True refl refl d rec] "1.prems"(2) by blast
    have data: "data = map model ?req" using "1.prems"(2) [OF d] .
    have split: "drop i texts = take batchSize (drop i texts) @ drop (i + batchSize) texts"
      by (metis append_take_drop_id drop_drop add.commute)
    have "map model (map truncate_input (drop i texts))
          = data @ map model (map truncate_input (drop (i + batchSize) texts))"
      unfolding data by (subst split) (simp del: append_take_drop_id)
    with ih show ?thesis by simp
  qed
qed

text \<open>The first request that fails ends the loop with the error of that request.\<close>

lemma batch_loop_first_failure:
  assumes "i + k * batchSize < length texts"
    and "api (map truncate_input (take batchSize (drop (i + k * batchSize) texts))) = Inl e"
    and "\<forall>j<k. \<exists>d. api (map truncate_input (take batchSize (drop (i + j * batchSize) texts))) = Inr d"
  shows "\<exists>tr'. batch_loop api texts i embs tr = (tr', Inl e) \<and>
           requests tr' = requests tr @
             map (\<lambda>j. map truncate_input (take batchSize (drop (i + j * batchSize) texts)))
               [0..<Suc k]"
  using assms
proof (induction k arbitrary: i embs tr)
  case 0
  then show ?case
    by (simp add: batch_loop.simps [of api texts i] requests_append)
next
  case (Suc k)
  let ?req = "map truncate_input (take batchSize (drop i texts))"
  from Suc.prems(1) have lt: "i < length texts" by simp
  from Suc.prems(3) obtain d where d: "api ?req = Inr d"
    by (metis add.right_neutral mult_zero_left zero_less_Suc)
  let ?tr = "tr @ [Request ?req] @ (if i + batchSize < length texts then [Sleep 1000] else [])"
  have step: "batch_loop api texts i embs tr = batch_loop api texts (i + batchSize) (embs @ d) ?tr"
    using lt d by (simp add: batch_loop.simps [of api texts i])
  have p1: "i + batchSize + k * batchSize < length texts"
    using Suc.prems(1) by (simp add: algebra_simps)
  have p2: "api (map truncate_input (take batchSize (drop (i + batchSize + k * batchSize) texts))) = Inl e"
    using Suc.prems(2) by (simp add: algebra_simps)
  have p3: "\<forall>j<k. \<exists>d. api (map truncate_input (take batchSize (drop (i + batchSize + j * batchSize) texts))) = Inr d"
  proof (intro allI impI)
    fix j assume "j < k"
    then have "Suc j < Suc k" by simp
    with Suc.prems(3) have "\<exists>d. api (map truncate_input (take batchSize (drop (i + Suc j * batchSize) texts))) = Inr d"
      by blast
    then show "\<exists>d. api (map truncate_input (take batchSize (drop (i + batchSize + j * batchSize) texts))) = Inr d"
      by (simp add: algebra_simps)
  qed
  from Suc.IH [OF p1 p2 p3, of "embs @ d" ?tr]
  obtain tr' where r: "batch_loop api texts (i + batchSize) (embs @ d) ?tr = (tr', Inl e)"
    and q: "requests tr' = requests ?tr @
             map (\<lambda>j. map truncate_input (take batchSize (drop (i + batchSize + j * batchSize) texts)))
               [0..<Suc k]"
    by blast
  have rq: "requests ?tr = requests tr @ [?req]"
    by (simp add: requests_append)
  have "requests tr' = requests tr @
             map (\<lambda>j. map truncate_input (take batchSize (drop (i + j * batchSize) texts)))
               [0..<Suc (Suc k)]"
    unfolding q rq upt_shift [of "Suc k"]
    by (simp add: comp_def add.assoc add.commute add.left_commute del: upt_Suc)
  with r step show ?case by simp
qed

text \<open>Cutting a list into pieces of \<open>n\<close> elements and gluing them gives the list back.\<close>

lemma count_step:
  assumes "0 < n" "xs \<noteq> []"
  shows "(length xs + (n - 1)) div n = Suc ((length (drop n xs) + (n - 1)) div n)"
proof (cases "length xs \<le> n")
  case True
  from True assms have "n * 1 \<le> length xs + (n - 1)" "length xs + (n - 1) < n * Suc 1"
    by (cases xs; auto)+
  then have "(length xs + (n - 1)) div n = 1"
    by (rule div_nat_eqI)
  moreover from True assms(1) have "(length (drop n xs) + (n - 1)) div n = 0"
    by simp
  ultimately show ?thesis by simp
next
  case False
  then have eq: "length xs + (n - 1) = (length xs - n + (n - 1)) + n" by simp
  have "((length xs - n + (n - 1)) + n) div n = (length xs - n + (n - 1)) div n + 1"
    using assms(1) by (intro div_add_self2) simp
  then have "(length xs + (n - 1)) div n = (length xs - n + (n - 1)) div n + 1"
    by (simp only: eq [symmetric])
  then show ?thesis by (simp only: length_drop Suc_eq_plus1)
qed

lemma concat_batches:
  assumes "0 < n"
  shows "concat (map (\<lambda>j. take n (drop (j * n) xs)) [0..<(length xs + (n - 1)) div n]) = xs"
proof (induction xs rule: length_induct)
  case (1 xs)
  show ?case
  proof (cases "xs = []")
    case True
    with assms show ?thesis by simp
  next
    case False
    with assms have "length (drop n xs) < length xs" by (cases xs) auto
    with 1 have ih: "concat (map (\<lambda>j. take n (drop (j * n) (drop n xs)))
        [0..<(length (drop n xs) + (n - 1)) div n]) = drop n xs" by blast
    have f: "(\<lambda>j. take n (drop (Suc j * n) xs)) = (\<lambda>j. take n (drop (j * n) (drop n xs)))"
      by (simp add: add.commute)
    have "concat (map (\<lambda>j. take n (drop (j * n) xs)) (0 # map Suc [0..<(length (drop n xs) + (n - 1)) div n]))
          = take n xs @ concat (map (\<lambda>j. take n (drop (Suc j * n) xs)) [0..<(length (drop n xs) + (n - 1)) div n])"
      by (simp add: comp_def)
    also have "\<dots> = take n xs @ drop n xs"
      unfolding f ih ..
    finally show ?thesis
      unfolding count_step [OF assms False] upt_shift by simp
  qed
qed

lemma concat_batch_at:
  "concat (map (batch_at texts) [0..<batch_count texts]) = map truncate_input texts"
proof -
  have "concat (map (batch_at texts) [0..<batch_count texts])
        = map truncate_input (concat (map (\<lambda>j. take batchSize (drop (j * batchSize) texts))
            [0..<(length texts + (batchSize - 1)) div batchSize]))"
    by (simp add: batch_at_fun batch_count_def map_concat comp_def)
  also have "\<dots> = map truncate_input texts"
    by (subst concat_batches) (simp_all add: batchSize_def)
  finally show ?thesis .
qed

lemma batch_at_size:
  "\<forall>r\<in>set (map (batch_at texts) [0..<batch_count texts]). r \<noteq> [] \<and> length r \<le> 100"
  by (auto simp: batch_at_def batch_count_def batchSize_def)

text \<open>
  When the service answers the request of every batch still ahead with one vector
  per text, the loop returns, with those vectors after the ones collected so far.
\<close>

lemma batch_loop_returns:
  assumes "\<forall>j. i + j * batchSize < length texts \<longrightarrow>
             api (map truncate_input (take batchSize (drop (i + j * batchSize) texts)))
               = Inr (map model (map truncate_input (take batchSize (drop (i + j * batchSize) texts))))"
  shows "\<exists>tr'. batch_loop api texts i embs tr
                 = (tr', Inr (embs @ map model (map truncate_input (drop i texts))))"
  using assms
proof (induction api texts i embs tr rule: batch_loop.induct)
  case (1 api texts i embeddings tr)
  show ?case
  proof (cases "i < length texts")
    case False
    then show ?thesis by (simp add: batch_loop.simps [of api texts i])
  next
    case True
    let ?req = "map truncate_input (take batchSize (drop i texts))"
    from True "1.prems" have d: "api ?req = Inr (map model ?req)"
      by (metis add.right_neutral mult_zero_left)
    let ?tr = "tr @ [Request ?req] @ (if i + batchSize < length texts then [Sleep 1000] else [])"
    have step: "batch_loop api texts i embeddings tr
                  = batch_loop api texts (i + batchSize) (embeddings @ map model ?req) ?tr"
      using True d by (simp add: batch_loop.simps [of api texts i])
    have ahead: "\<forall>j. i + batchSize + j * batchSize < length texts \<longrightarrow>
             api (map truncate_input (take batchSize (drop (i + batchSize + j * batchSize) texts)))
               = Inr (map model (map truncate_input
                        (take batchSize (drop (i + batchSize + j * batchSize) texts))))"
    proof (intro allI impI)
      fix j assume "i + batchSize + j * batchSize < length texts"
      then have "i + Suc j * batchSize < length texts" by (simp add: algebra_simps)
      with "1.prems" have "api (map truncate_input (take batchSize (drop (i + Suc j * batchSize) texts)))
               = Inr (map model (map truncate_input (take batchSize (drop (i + Suc j * batchSize) texts))))"
        by blast
      then show "api (map truncate_input (take batchSize (drop (i + batchSize + j * batchSize) texts)))
               = Inr (map model (map truncate_input
                        (take batchSize (drop (i + batchSize + j * batchSize) texts))))"
        by (simp add: algebra_simps)
    qed
    from "1.IH" [OF True refl refl d ahead]
    obtain tr' where r: "batch_loop api texts (i + batchSize) (embeddings @ map model ?req) ?tr
        = (tr', Inr ((embeddings @ map model ?req)
                     @ map model (map truncate_input (drop (i + batchSize) texts))))"
      by blast
    have split: "drop i texts = take batchSize (drop i texts) @ drop (i + batchSize) texts"
      by (metis append_take_drop_id drop_drop add.commute)
    have "map model (map truncate_input (drop i texts))
          = map model ?req @ map model (map truncate_input (drop (i + batchSize) texts))"
      by (subst split) (simp del: append_take_drop_id)
    with r step show ?thesis by simp
  qed
qed

lemma batch_index_count: "k * batchSize < length texts \<Longrightarrow> k < batch_count texts"
  unfolding batch_count_def batchSize_def by simp

lemma batch_at_subset: "set (batch_at texts k) \<subseteq> truncate_input ` set texts"
  by (auto simp: batch_at_def dest: in_set_takeD in_set_dropD)

text \<open>
  Claim C3, as the code has it. When the embeddings service answers the request of
  every batch with one vector per text, in the order of the texts, each vector
  determined by its text (\<open>model\<close>), \<open>generateBatchEmbeddings\<close> returns: it has
  issued one request for each consecutive batch of at most 100 truncated texts, in
  order, and it returns one vector per input in the order of the inputs; the vector
  at index \<open>i\<close> is the one \<open>generateEmbedding\<close> returns for the \<open>i\<close>-th text
  when the service answers that single text in the same way.
\<close>

theorem generateBatchEmbeddings_order:
  assumes answered: "\<forall>k<batch_count texts.
                       api (batch_at texts k) = Inr (map model (batch_at texts k))"
  shows "\<exists>tr vs. generateBatchEmbeddings api texts = (tr, Inr vs)
       \<and> requests tr = map (batch_at texts) [0..<batch_count texts]
       \<and> concat (requests tr) = map truncate_input texts
       \<and> (\<forall>r\<in>set (requests tr). r \<noteq> [] \<and> length r \<le> 100)
       \<and> vs = map (\<lambda>t. model (truncate_input t)) texts
       \<and> length vs = length texts
       \<and> (\<forall>i<length texts.
             api [truncate_input (texts ! i)] = Inr [model (truncate_input (texts ! i))]
             \<longrightarrow> snd (generateEmbedding api (texts ! i)) = Inr (vs ! i))"
proof -
  have "\<forall>j. 0 + j * batchSize < length texts \<longrightarrow>
             api (map truncate_input (take batchSize (drop (0 + j * batchSize) texts)))
               = Inr (map model (map truncate_input (take batchSize (drop (0 + j * batchSize) texts))))"
    using answered batch_index_count [of _ texts] by (simp add: batch_at_def)
  from batch_loop_returns [OF this, of "[]" "[]"]
  obtain tr where loop: "batch_loop api texts 0 [] []
                           = (tr, Inr (map model (map truncate_input texts)))"
    by auto
  let ?vs = "map (\<lambda>t. model (truncate_input t)) texts"
  have vs: "map model (map truncate_input texts) = ?vs" by (simp add: comp_def)
  have run: "generateBatchEmbeddings api texts = (tr, Inr ?vs)"
    by (simp add: generateBatchEmbeddings_def loop vs)
  have reqs: "requests tr = map (batch_at texts) [0..<batch_count texts]"
    using batch_loop_requests_ok [OF loop]
    by (simp add: batch_at_fun batch_count_def)
  have one: "snd (generateEmbedding api (texts ! i)) = Inr (?vs ! i)"
    if "i < length texts"
       "api [truncate_input (texts ! i)] = Inr [model (truncate_input (texts ! i))]" for i
    using that by (simp add: generateEmbedding_def)
  show ?thesis
    using run reqs one concat_batch_at [of texts] batch_at_size [of texts] by auto
qed

lemma example_api_answers:
  "''bad'' \<notin> set req \<Longrightarrow>
     example_api req = Inr (map (\<lambda>t. replicate 1536 (real (length t))) req)"
  by (simp add: example_api_def)

theorem generateBatchEmbeddings_order_witness:
  "\<exists>tr. generateBatchEmbeddings example_api (replicate 100 ''ok'' @ [''fine'', ''x''])
           = (tr, Inr (replicate 100 (replicate 1536 2) @ [replicate 1536 4, replicate 1536 1]))
      \<and> requests tr = [replicate 100 ''ok'', [''fine'', ''x'']]
      \<and> snd (generateEmbedding example_api ''fine'') = Inr (replicate 1536 4)"
proof -
  let ?texts = "replicate 100 ''ok'' @ [''fine'', ''x'']"
  let ?model = "\<lambda>t. replicate 1536 (real (length t))"
  have "''bad'' \<notin> truncate_input ` set ?texts"
    by (simp add: truncate_input_def)
  then have clean: "''bad'' \<notin> set (batch_at ?texts k)" for k
    using batch_at_subset [of ?texts k] by auto
  have answered: "\<forall>k<batch_count ?texts.
                    example_api (batch_at ?texts k) = Inr (map ?model (batch_at ?texts k))"
    by (simp add: example_api_answers clean)
  have batches: "map (batch_at ?texts) [0..<batch_count ?texts] = [replicate 100 ''ok'', [''fine'', ''x'']]"
    by (simp add: batch_count_def batch_at_def batchSize_def truncate_input_def upt_conv_Cons)
  have vectors: "map (\<lambda>t. ?model (truncate_input t)) ?texts
                 = replicate 100 (replicate 1536 2) @ [replicate 1536 4, replicate 1536 1]"
    by (simp add: truncate_input_def)
  have single: "example_api [truncate_input (?texts ! 100)]
                  = Inr [?model (truncate_input (?texts ! 100))]"
    by (simp add: example_api_def truncate_input_def nth_append)
  from generateBatchEmbeddings_order [of ?texts example_api ?model, OF answered]
  obtain tr vs where
    run: "generateBatchEmbeddings example_api ?texts = (tr, Inr vs)"
    and reqs: "requests tr = map (batch_at ?texts) [0..<batch_count ?texts]"
    and vs: "vs = map (\<lambda>t. ?model (truncate_input t)) ?texts"
    and one: "\<forall>i<length ?texts.
             example_api [truncate_input (?texts ! i)] = Inr [?model (truncate_input (?texts ! i))]
             \<longrightarrow> snd (generateEmbedding example_api (?texts ! i)) = Inr (vs ! i)"
    by blast
  from one single have "snd (generateEmbedding example_api (?texts ! 100)) = Inr (vs ! 100)"
    by simp
  then have "snd (generateEmbedding example_api ''fine'') = Inr (replicate 1536 4)"
    unfolding vs vectors by (simp add: nth_append)
  with run reqs show ?thesis
    unfolding vs vectors batches by (intro exI [of _ tr]) simp
qed

text \<open>
  A service that answers a request of two texts with the vector of the first text
  only: \<open>generateBatchEmbeddings\<close> returns one vector for two inputs, and nothing
  for the second text, for which \<open>generateEmbedding\<close> returns a vector.
\<close>

theorem generateBatchEmbeddings_short_answer_counterexample:
  "generateBatchEmbeddings first_only_api [''a'', ''bb''] = ([Request [''a'', ''bb'']], Inr [[1]])
   \<and> snd (generateEmbedding first_only_api ''bb'') = Inr [2]"
  by (simp add: generateBatchEmbeddings_def batch_loop.simps batchSize_def first_only_api_def
      generateEmbedding_def truncate_input_def)

text \<open>
  Claim C5, as the code has it. When the request of batch \<open>k\<close> is the first to
  fail, \<open>generateBatchEmbeddings\<close> issues no request after it, returns no vector,
  and throws the error of that request as it is; the requests issued are those of
  the batches \<open>0\<close> to \<open>k\<close>.
\<close>

theorem generateBatchEmbeddings_failure:
  assumes "k * batchSize < length texts"
    and "api (batch_at texts k) = Inl e"
    and "\<forall>j<k. \<exists>d. api (batch_at texts j) = Inr d"
  shows "\<exists>tr. generateBatchEmbeddings api texts = (tr, Inl (RequestFailed e))
           \<and> requests tr = map (batch_at texts) [0..<Suc k]"
proof -
  have p1: "0 + k * batchSize < length texts"
    using assms(1) by simp
  have p2: "api (map truncate_input (take batchSize (drop (0 + k * batchSize) texts))) = Inl e"
    using assms(2) by (simp add: batch_at_def)
  have p3: "\<forall>j<k. \<exists>d. api (map truncate_input (take batchSize (drop (0 + j * batchSize) texts))) = Inr d"
    using assms(3) by (simp add: batch_at_def)
  from batch_loop_first_failure [OF p1 p2 p3, of "[]" "[]"]
  obtain tr' where l: "batch_loop api texts 0 [] [] = (tr', Inl e)"
    and r: "requests tr' = map (batch_at texts) [0..<Suc k]"
    by (auto simp: batch_at_fun)
  have "generateBatchEmbeddings api texts
        = (tr' @ [ConsoleError ''Error generating batch embeddings:''], Inl (RequestFailed e))"
    by (simp add: generateBatchEmbeddings_def l)
  moreover have "requests (tr' @ [ConsoleError ''Error generating batch embeddings:''])
        = map (batch_at texts) [0..<Suc k]"
    using r by (simp add: requests_append)
  ultimately show ?thesis by blast
qed

theorem generateBatchEmbeddings_failure_witness:
  "\<exists>tr. generateBatchEmbeddings example_api (replicate 100 ''ok'' @ [''bad'', ''late''])
           = (tr, Inl (RequestFailed ''rate limit''))
        \<and> requests tr = [replicate 100 ''ok'', [''bad'', ''late'']]"
proof -
  let ?texts = "replicate 100 ''ok'' @ [''bad'', ''late'']"
  have h1: "1 * batchSize < length ?texts"
    by (simp add: batchSize_def)
  have h2: "example_api (batch_at ?texts 1) = Inl ''rate limit''"
    by (simp add: batch_at_def batchSize_def example_api_def truncate_input_def)
  have h3: "\<forall>j<1. \<exists>d. example_api (batch_at ?texts j) = Inr d"
    by (simp add: batch_at_def batchSize_def example_api_def truncate_input_def)
  have "map (batch_at ?texts) [0..<Suc 1] = [replicate 100 ''ok'', [''bad'', ''late'']]"
    by (simp add: batch_at_def batchSize_def truncate_input_def)
  with generateBatchEmbeddings_failure [OF h1 h2 h3] show ?thesis by simp
qed

text \<open>
  The error thrown does not tell the offset of the failed batch: a failure in the
  batch at offset 0 and a failure in the batch at offset 100 throw the same value.
\<close>

theorem generateBatchEmbeddings_offset_counterexample:
  "snd (generateBatchEmbeddings example_api [''bad'']) = Inl (RequestFailed ''rate limit'')
   \<and> failed_batch_offset (fst (generateBatchEmbeddings example_api [''bad''])) = 0
   \<and> snd (generateBatchEmbeddings example_api (replicate 100 ''ok'' @ [''bad'']))
       = Inl (RequestFailed ''rate limit'')
   \<and> failed_batch_offset (fst (generateBatchEmbeddings example_api (replicate 100 ''ok'' @ [''bad''])))
       = 100"
  by (simp add: generateBatchEmbeddings_def batch_loop.simps batchSize_def example_api_def
      truncate_input_def failed_batch_offset_def)

section \<open>Properties of the similarity search\<close>

lemma candidate_rows_mem:
  "(d, i, dc) \<in> set (candidate_rows cd rows q)
   \<longleftrightarrow> (i, dc) \<in> set rows \<and> (\<exists>v. embedding dc = Some v \<and> d = cd v q)"
  by (force simp: candidate_rows_def split: option.splits)

lemma one_minus_NaN: "one_minus round8 d = NaN \<longleftrightarrow> d = NaN"
  by (cases d) simp_all

lemma float8_key_NaN: "float8_key a \<le> float8_key b \<Longrightarrow> b \<noteq> NaN \<Longrightarrow> a \<noteq> NaN"
  by (cases a; cases b) simp_all

text \<open>Away from NaN, a larger distance gives a score that is not larger.\<close>

lemma one_minus_antitone:
  assumes "mono round8" "float8_key a \<le> float8_key b" "b \<noteq> NaN"
  shows "float8_le (one_minus round8 b) (one_minus round8 a)"
proof (cases a)
  case (Num x)
  show ?thesis
  proof (cases b)
    case (Num y)
    with \<open>a = Num x\<close> assms(2) have "1 - y \<le> 1 - x" by simp
    with assms(1) have "round8 (1 - y) \<le> round8 (1 - x)" by (rule monoD)
    with Num \<open>a = Num x\<close> show ?thesis by (simp add: float8_le_def)
  qed (use assms \<open>a = Num x\<close> in \<open>simp_all add: float8_le_def\<close>)
qed (use assms in \<open>cases b; simp add: float8_le_def\<close>)+

lemma sorted_similarity:
  assumes "mono round8" "sorted (map (\<lambda>(d, i, dc). float8_key d) xs)"
  shows "sorted_wrt (\<lambda>a b. may_precede (similarity a) (similarity b)) (map (to_result round8) xs)"
  using assms(2)
proof (induction xs)
  case Nil
  show ?case by simp
next
  case (Cons x xs)
  obtain d i dc where x: "x = (d, i, dc)" by (cases x)
  have "may_precede (similarity (to_result round8 x)) (similarity (to_result round8 y))"
    if "y \<in> set xs" for y
  proof -
    obtain d' i' dc' where y: "y = (d', i', dc')" by (cases y)
    from Cons.prems that have le: "float8_key d \<le> float8_key d'"
      by (auto simp: x y)
    show ?thesis
    proof (cases "d' = NaN")
      case True
      then show ?thesis by (simp add: may_precede_def to_result_def x y)
    next
      case False
      from float8_key_NaN [OF le False] have "d \<noteq> NaN" .
      moreover from one_minus_antitone [OF assms(1) le False]
      have "float8_le (one_minus round8 d') (one_minus round8 d)" .
      ultimately show ?thesis
        by (simp add: may_precede_def to_result_def x y one_minus_NaN)
    qed
  qed
  moreover from Cons have "sorted_wrt (\<lambda>a b. may_precede (similarity a) (similarity b))
                             (map (to_result round8) xs)"
    by simp
  ultimately show ?case by simp
qed

lemma sorted_take_key: "sorted (map f xs) \<Longrightarrow> sorted (map f (take k xs))"
  by (simp add: sorted_wrt_take take_map [symmetric])

text \<open>
  Claim C2, as the code has it. For every query vector, threshold, limit, optional
  project filter and database, a negative limit is an error; otherwise
  \<open>search_similar_chunks\<close> returns rows whose score \<open>1 - cosine_distance\<close> is
  above the threshold in the order of the database (where NaN is above every
  number), at most \<open>limit\<close> of them, all of the filtered project when a filter is
  given, every row a stored chunk with its score computed from its embedding; and,
  rounding being monotone, the rows whose score is a number come first, in
  non-increasing score, followed by the rows whose score is NaN.
\<close>

theorem search_similar_chunks_contract:
  "(n < 0 \<longrightarrow> search_similar_chunks round8 cd db q pf t n = Inl NegativeLimit) \<and>
   (0 \<le> n \<longrightarrow> (\<exists>rs. search_similar_chunks round8 cd db q pf t n = Inr rs
      \<and> (\<forall>r\<in>set rs. float8_less t (similarity r))
      \<and> (mono round8 \<longrightarrow> sorted_wrt (\<lambda>a b. may_precede (similarity a) (similarity b)) rs)
      \<and> int (length rs) \<le> n
      \<and> (\<forall>p. pf = Some p \<longrightarrow> (\<forall>r\<in>set rs. r_project_id r = Some p))
      \<and> (\<forall>r\<in>set rs. \<exists>(i, dc)\<in>set (document_chunks db). \<exists>v.
             embedding dc = Some v \<and> similarity r = one_minus round8 (cd v q)
             \<and> r_id r = i \<and> r_project_id r = project_id dc
             \<and> r_file_path r = file_path dc \<and> r_chunk_content r = chunk_content dc)))"
proof (intro conjI impI)
  assume "n < 0"
  then show "search_similar_chunks round8 cd db q pf t n = Inl NegativeLimit"
    by (simp add: search_similar_chunks_def)
next
  assume n: "0 \<le> n"
  define selected where "selected =
     filter (\<lambda>(d, i, dc). (pf = None \<or> (project_id dc \<noteq> None \<and> project_id dc = pf))
                          \<and> float8_less t (one_minus round8 d))
       (candidate_rows cd (document_chunks db) q)"
  define top where "top = take (nat n) (sort_key (\<lambda>(d, i, dc). float8_key d) selected)"
  have run: "search_similar_chunks round8 cd db q pf t n = Inr (map (to_result round8) top)"
    using n by (simp add: search_similar_chunks_def selected_def top_def)
  have sub: "set top \<subseteq> set selected"
    unfolding top_def
    using set_take_subset [of "nat n" "sort_key (\<lambda>(d, i, dc). float8_key d) selected"] by simp
  have above: "\<forall>r\<in>set (map (to_result round8) top). float8_less t (similarity r)"
    using sub by (auto simp: selected_def to_result_def)
  have ordered: "mono round8 \<longrightarrow>
      sorted_wrt (\<lambda>a b. may_precede (similarity a) (similarity b)) (map (to_result round8) top)"
  proof
    assume m: "mono round8"
    have "sorted (map (\<lambda>(d, i, dc). float8_key d) top)"
      unfolding top_def by (intro sorted_take_key) simp
    with m show "sorted_wrt (\<lambda>a b. may_precede (similarity a) (similarity b))
                   (map (to_result round8) top)"
      by (rule sorted_similarity)
  qed
  have capped: "int (length (map (to_result round8) top)) \<le> n"
    using n by (simp add: top_def)
  have proj: "\<forall>p. pf = Some p \<longrightarrow> (\<forall>r\<in>set (map (to_result round8) top). r_project_id r = Some p)"
    using sub by (auto simp: selected_def to_result_def)
  have origin: "\<forall>r\<in>set (map (to_result round8) top). \<exists>(i, dc)\<in>set (document_chunks db). \<exists>v.
             embedding dc = Some v \<and> similarity r = one_minus round8 (cd v q)
             \<and> r_id r = i \<and> r_project_id r = project_id dc
             \<and> r_file_path r = file_path dc \<and> r_chunk_content r = chunk_content dc"
  proof
    fix r assume "r \<in> set (map (to_result round8) top)"
    then obtain d i dc where m: "(d, i, dc) \<in> set top" and r: "r = to_result round8 (d, i, dc)"
      by auto
    from m sub have "(d, i, dc) \<in> set (candidate_rows cd (document_chunks db) q)"
      by (auto simp: selected_def)
    then obtain v where "(i, dc) \<in> set (document_chunks db)" "embedding dc = Some v" "d = cd v q"
      by (auto simp: candidate_rows_mem)
    then show "\<exists>(i, dc)\<in>set (document_chunks db). \<exists>v.
             embedding dc = Some v \<and> similarity r = one_minus round8 (cd v q)
             \<and> r_id r = i \<and> r_project_id r = project_id dc
             \<and> r_file_path r = file_path dc \<and> r_chunk_content r = chunk_content dc"
      unfolding r by (auto simp: to_result_def intro!: bexI [of _ "(i, dc)"])
  qed
  show "\<exists>rs. search_similar_chunks round8 cd db q pf t n = Inr rs
      \<and> (\<forall>r\<in>set rs. float8_less t (similarity r))
      \<and> (mono round8 \<longrightarrow> sorted_wrt (\<lambda>a b. may_precede (similarity a) (similarity b)) rs)
      \<and> int (length rs) \<le> n
      \<and> (\<forall>p. pf = Some p \<longrightarrow> (\<forall>r\<in>set rs. r_project_id r = Some p))
      \<and> (\<forall>r\<in>set rs. \<exists>(i, dc)\<in>set (document_chunks db). \<exists>v.
             embedding dc = Some v \<and> similarity r = one_minus round8 (cd v q)
             \<and> r_id r = i \<and> r_project_id r = project_id dc
             \<and> r_file_path r = file_path dc \<and> r_chunk_content r = chunk_content dc)"
    using run above ordered capped proj origin by blast
qed

lemma example_search_zero:
  "search_similar_chunks (\<lambda>x. x) unit_cosine_distance example_db_zero [1, 0] (Some ''p1'') (Num (7 / 10)) 10
     = Inr (map (\<lambda>(i, path, t, body, s).
                  \<lparr>r_id = i, r_project_id = Some ''p1'', r_source_type = t, r_file_path = Some path,
                   r_chunk_content = body, r_contextual_content = None, r_metadata = None,
                   similarity = s\<rparr>)
              [(5, ''g.ts'', Code, ''eta'', Num (24 / 25)), (4, ''e.ts'', Code, ''epsilon'', Num (12 / 13)),
               (1, ''b.md'', Docs, ''beta'', Num (4 / 5)), (6, ''z.ts'', Code, ''zeta'', NaN)])"
  by (simp add: search_similar_chunks_def candidate_rows_def example_db_zero_def example_db_def
      example_chunk_def unit_cosine_distance_def to_result_def float8_less_def)

theorem search_similar_chunks_contract_witness:
  "\<exists>rs. search_similar_chunks (\<lambda>x. x) unit_cosine_distance example_db_zero [1, 0] (Some ''p1'')
           (Num (7 / 10)) 10 = Inr rs
        \<and> map (\<lambda>r. (r_file_path r, similarity r)) rs
            = [(Some ''g.ts'', Num (24 / 25)), (Some ''e.ts'', Num (12 / 13)),
               (Some ''b.md'', Num (4 / 5)), (Some ''z.ts'', NaN)]
        \<and> (\<forall>r\<in>set rs. float8_less (Num (7 / 10)) (similarity r))
        \<and> sorted_wrt (\<lambda>a b. may_precede (similarity a) (similarity b)) rs
        \<and> int (length rs) \<le> 10
        \<and> (\<forall>r\<in>set rs. r_project_id r = Some ''p1'')"
proof -
  have m: "mono (\<lambda>x::real. x)" by (simp add: mono_def)
  have "(0::int) \<le> 10" by simp
  with search_similar_chunks_contract
         [of 10 "\<lambda>x. x" unit_cosine_distance example_db_zero "[1, 0]" "Some ''p1''" "Num (7 / 10)"] m
  obtain rs where
    r: "search_similar_chunks (\<lambda>x. x) unit_cosine_distance example_db_zero [1, 0] (Some ''p1'')
          (Num (7 / 10)) 10 = Inr rs"
    and p: "\<forall>r\<in>set rs. float8_less (Num (7 / 10)) (similarity r)"
       "sorted_wrt (\<lambda>a b. may_precede (similarity a) (similarity b)) rs"
       "int (length rs) \<le> 10"
       "\<forall>r\<in>set rs. r_project_id r = Some ''p1''"
    by auto
  from r have "map (\<lambda>r. (r_file_path r, similarity r)) rs
            = [(Some ''g.ts'', Num (24 / 25)), (Some ''e.ts'', Num (12 / 13)),
               (Some ''b.md'', Num (4 / 5)), (Some ''z.ts'', NaN)]"
    unfolding example_search_zero by auto
  with r p show ?thesis by (intro exI [of _ rs]) simp
qed

text \<open>
  A table with a chunk whose embedding is the zero vector: its distance to the query
  and its score are NaN, it passes the filter, and it is returned last, after a row
  of score 4/5. In the order of the database 4/5 is below NaN, so the scores of the
  result are not in non-increasing order.
\<close>

theorem search_similar_chunks_NaN_counterexample:
  "(case search_similar_chunks (\<lambda>x. x) unit_cosine_distance example_db_zero [1, 0] (Some ''p1'')
           (Num (7 / 10)) 10 of
      Inl e \<Rightarrow> False
    | Inr rs \<Rightarrow>
        map (\<lambda>r. (r_file_path r, similarity r)) rs
          = [(Some ''g.ts'', Num (24 / 25)), (Some ''e.ts'', Num (12 / 13)),
             (Some ''b.md'', Num (4 / 5)), (Some ''z.ts'', NaN)]
        \<and> \<not> sorted_wrt (\<lambda>a b. float8_le (similarity b) (similarity a)) rs)"
  by (simp add: example_search_zero float8_le_def)

section \<open>Properties of the processors\<close>

lemma split_char_first:
  "\<exists>rest. split_char c s = takeWhile (\<lambda>x. x \<noteq> c) s # rest"
  by (induction s) auto

lemma group_key_Some:
  "group_key (Some s) =
     (if takeWhile (\<lambda>x. x \<noteq> CHR ''#'') s = [] then ''unknown''
      else takeWhile (\<lambda>x. x \<noteq> CHR ''#'') s)"
proof -
  obtain rest where "split_char CHR ''#'' s = takeWhile (\<lambda>x. x \<noteq> CHR ''#'') s # rest"
    using split_char_first by blast
  then show ?thesis by (simp add: group_key_def)
qed

lemma takeWhile_before_marker:
  "c \<notin> set path \<Longrightarrow> takeWhile (\<lambda>x. x \<noteq> c) (path @ c # rest) = path"
  by (induction path) auto

text \<open>
  The paths of the documents of one file: the bare file name for a single chunk,
  the file name with \<open>#chunk-\<close> and the ordinal, counted from 1, otherwise.
\<close>

lemma chunk_documents_paths:
  "map (\<lambda>d. filePath (metadata d)) (chunk_documents file pid m chunks) =
     (if length chunks > 1
      then map (\<lambda>i. file @ ''#chunk-'' @ show_nat (i + 1)) [0..<length chunks]
      else map (\<lambda>i. file) [0..<length chunks])"
  by (simp add: chunk_documents_def chunk_file_path_def comp_def)

lemma chunk_documents_contents:
  "map content (chunk_documents file pid m chunks) = chunks"
  by (simp add: chunk_documents_def comp_def map_nth)

text \<open>
  For a file name without \<open>#\<close>, the key under which the code summary groups a
  chunk is the name of the file the chunk came from.
\<close>

lemma group_key_chunk_file_path:
  assumes "CHR ''#'' \<notin> set file" "file \<noteq> []"
  shows "group_key (Some (chunk_file_path file n i)) = file"
proof (cases "n > 1")
  case True
  then have "chunk_file_path file n i = file @ CHR ''#'' # (''chunk-'' @ show_nat (i + 1))"
    by (simp add: chunk_file_path_def)
  with assms show ?thesis
    by (simp add: group_key_Some takeWhile_before_marker)
next
  case False
  then have "chunk_file_path file n i = file" by (simp add: chunk_file_path_def)
  moreover from assms(1) have "takeWhile (\<lambda>x. x \<noteq> CHR ''#'') file = file"
    by (auto simp: takeWhile_eq_all_conv)
  ultimately have "group_key (Some (chunk_file_path file n i)) = (if file = [] then ''unknown'' else file)"
    by (simp only: group_key_Some)
  with assms(2) show ?thesis by simp
qed

text \<open>
  Claim C6 at the input where it fails. A repository tracks \<open>src/a#b.ts\<close> and
  \<open>src/a#c.ts\<close>; both pass the file filter as code, and each gives one chunk,
  whose origin path is the bare file name. The code summary then puts the chunks of
  the two files into one group, under the key \<open>src/a\<close>, which is the name of
  neither file.
\<close>

theorem code_summary_groups_hash_paths:
  "shouldProcessFile ''src/a#b.ts'' \<and> shouldProcessFile ''src/a#c.ts''
   \<and> (\<exists>docs. processCodeRepository (\<lambda>t. [t]) example_repository ''p1'' = ([], Inr docs)
        \<and> map (\<lambda>d. (filePath (metadata d), sourceType (metadata d), content d)) docs
            = [(''src/a#b.ts'', Code, ''// src/a#b.ts''), (''src/a#c.ts'', Code, ''// src/a#c.ts'')]
        \<and> map (\<lambda>(key, chunks). (key, map chunk_content chunks))
              (fileGroups (map (\<lambda>d. chunk_of_document d []) docs))
            = [(''src/a'', [''// src/a#b.ts'', ''// src/a#c.ts''])])"
proof -
  have f1: "shouldProcessFile ''src/a#b.ts''"
    by (simp add: shouldProcessFile_def ignoredPatterns_def processedExtensions_def
        extname_def basename_def)
  have f2: "shouldProcessFile ''src/a#c.ts''"
    by (simp add: shouldProcessFile_def ignoredPatterns_def processedExtensions_def
        extname_def basename_def)
  have t1: "getSourceType ''src/a#b.ts'' = Code" "getSourceType ''src/a#c.ts'' = Code"
    by (simp_all add: getSourceType_def extname_def basename_def)
  let ?docs = "chunk_documents ''src/a#b.ts'' ''p1'' ''2024-01-01T00:00:00.000Z'' [''// src/a#b.ts'']
             @ chunk_documents ''src/a#c.ts'' ''p1'' ''2024-01-01T00:00:00.000Z'' [''// src/a#c.ts'']"
  have run: "processCodeRepository (\<lambda>t. [t]) example_repository ''p1'' = ([], Inr ?docs)"
    unfolding processCodeRepository_def
    by (simp add: example_repository_def trim_def is_space_def f1 f2)
  have paths: "map (\<lambda>d. (filePath (metadata d), sourceType (metadata d), content d)) ?docs
            = [(''src/a#b.ts'', Code, ''// src/a#b.ts''), (''src/a#c.ts'', Code, ''// src/a#c.ts'')]"
    by (simp add: chunk_documents_def chunk_file_path_def t1)
  have groups: "map (\<lambda>(key, chunks). (key, map chunk_content chunks))
              (fileGroups (map (\<lambda>d. chunk_of_document d []) ?docs))
            = [(''src/a'', [''// src/a#b.ts'', ''// src/a#c.ts''])]"
    by (simp add: fileGroups_def group_by_def chunk_documents_def chunk_file_path_def
        chunk_of_document_def group_key_def)
  show ?thesis
  proof (intro conjI exI [of _ ?docs])
    show "shouldProcessFile ''src/a#b.ts''" by (rule f1)
    show "shouldProcessFile ''src/a#c.ts''" by (rule f2)
    show "processCodeRepository (\<lambda>t. [t]) example_repository ''p1'' = ([], Inr ?docs)"
      by (rule run)
    show "map (\<lambda>d. (filePath (metadata d), sourceType (metadata d), content d)) ?docs
            = [(''src/a#b.ts'', Code, ''// src/a#b.ts''), (''src/a#c.ts'', Code, ''// src/a#c.ts'')]"
      by (rule paths)
    show "map (\<lambda>(key, chunks). (key, map chunk_content chunks))
              (fileGroups (map (\<lambda>d. chunk_of_document d []) ?docs))
            = [(''src/a'', [''// src/a#b.ts'', ''// src/a#c.ts''])]"
      by (rule groups)
  qed
qed

lemma text_entries_comprehension:
  "text_entries fs = [(k, s). (k, FString s) \<leftarrow> fs, 10 < length s]"
  by (induction fs rule: text_entries.induct) auto

lemma text_entries_nonempty:
  "text_entries fs \<noteq> [] \<longleftrightarrow> (\<exists>k s. (k, FString s) \<in> set fs \<and> 10 < length s)"
  by (induction fs rule: text_entries.induct) auto

lemma dropWhile_keeps: "x \<in> set xs \<Longrightarrow> \<not> P x \<Longrightarrow> x \<in> set (dropWhile P xs)"
  by (induction xs) auto

lemma trim_nonempty:
  assumes "x \<in> set s" "\<not> is_space x"
  shows "trim s \<noteq> []"
proof -
  from assms have "x \<in> set (rev (dropWhile is_space s))"
    by (simp add: dropWhile_keeps)
  then have "x \<in> set (dropWhile is_space (rev (dropWhile is_space s)))"
    using assms(2) by (rule dropWhile_keeps)
  then have "dropWhile is_space (rev (dropWhile is_space s)) \<noteq> []"
    by (cases "dropWhile is_space (rev (dropWhile is_space s))") simp_all
  then show ?thesis by (simp add: trim_def)
qed

lemma join_first: "set p \<subseteq> set (join sep (p # ps))"
  by (cases ps) auto

text \<open>
  A record gets a document exactly when one of its fields passes the filter: a
  rendered entry holds a colon, so the content is not blank.
\<close>

lemma record_content_blank:
  "trim (record_content fs) \<noteq> [] \<longleftrightarrow> text_entries fs \<noteq> []"
proof (cases "text_entries fs")
  case Nil
  then show ?thesis by (simp add: record_content_def trim_def)
next
  case (Cons e es)
  obtain k s where e: "e = (k, s)" by (cases e)
  have "CHR '':'' \<in> set (k @ '': '' @ s)" by simp
  with join_first [of "k @ '': '' @ s" "[CHR 0x0A, CHR 0x0A]" "map (\<lambda>(key, s). key @ '': '' @ s) es"]
  have "CHR '':'' \<in> set (record_content fs)"
    by (auto simp: record_content_def Cons e)
  moreover have "\<not> is_space CHR '':''" by (simp add: is_space_def)
  ultimately have "trim (record_content fs) \<noteq> []" by (rule trim_nonempty)
  with Cons show ?thesis by simp
qed

lemma process_records_eq:
  "process_records t pid rs docs =
     docs @ map (\<lambda>r. airtable_document t pid r (record_content (record_fields r)))
              (filter (\<lambda>r. text_entries (record_fields r) \<noteq> []) rs)"
  by (induction rs arbitrary: docs) (simp_all add: Let_def record_content_blank)

text \<open>
  Claim C9, as the code has it. The table adapter yields one document for every
  record that has a string-valued field longer than 10 characters, in the order of
  the records; the content of the document is the \<open>field: value\<close> entries of
  those fields (string-valued and longer than 10 characters), one entry per such
  field, in the order of the fields, joined by a blank line.
\<close>

theorem processTable_documents:
  assumes "select tableName = Inr records"
  shows "processTable select tableName pid =
           ([], Inr (map (\<lambda>r. airtable_document tableName pid r
                           (join [CHR 0x0A, CHR 0x0A]
                              [k @ '': '' @ s. (k, FString s) \<leftarrow> record_fields r, 10 < length s]))
                      (filter (\<lambda>r. \<exists>k s. (k, FString s) \<in> set (record_fields r) \<and> 10 < length s)
                         records)))"
proof -
  have c: "record_content fs = join [CHR 0x0A, CHR 0x0A] [k @ '': '' @ s. (k, FString s) \<leftarrow> fs, 10 < length s]"
    for fs
    unfolding record_content_def
    by (rule arg_cong [where f = "join [CHR 0x0A, CHR 0x0A]"])
       (induction fs rule: text_entries.induct, auto)
  show ?thesis
    using assms
    by (simp add: processTable_def process_records_eq text_entries_nonempty c)
qed

theorem processTable_documents_witness:
  "processTable example_table ''Tasks'' ''p1'' =
     ([], Inr [airtable_document ''Tasks'' ''p1'' example_record ''Notes: a long description''])"
proof -
  have h: "example_table ''Tasks'' = Inr [example_record]"
    by (simp add: example_table_def)
  have e: "\<exists>k s. (k, FString s) \<in> set (record_fields example_record) \<and> 10 < length s"
    by (rule exI [of _ "''Notes''"], rule exI [of _ "''a long description''"])
       (simp add: example_record_def)
  have c: "join [CHR 0x0A, CHR 0x0A]
             [k @ '': '' @ s. (k, FString s) \<leftarrow> record_fields example_record, 10 < length s]
           = ''Notes: a long description''"
    by (simp add: example_record_def)
  from processTable_documents [of example_table "''Tasks''" "[example_record]" "''p1''", OF h]
  show ?thesis
    by (simp add: e c)
qed

text \<open>
  The record of the example has the string-valued field \<open>Name\<close> with the value
  \<open>Ada\<close>. One line per string-valued field would hold \<open>Name: Ada\<close>; the
  document that the adapter produces does not.
\<close>

theorem processTable_short_field_counterexample:
  "map content (case snd (processTable example_table ''Tasks'' ''p1'') of Inl e \<Rightarrow> [] | Inr ds \<Rightarrow> ds)
     = [''Notes: a long description'']
   \<and> spec_record_content (record_fields example_record)
     = ''Name: Ada'' @ [CHR 0x0A] @ ''Notes: a long description''"
  by (simp add: processTable_def example_table_def example_record_def record_content_def
      spec_record_content_def airtable_document_def trim_def is_space_def)

section \<open>Properties of the knowledge-base generator\<close>

lemma first_occurrences_snoc:
  "first_occurrences (ks @ [k]) = (if k \<in> set ks then first_occurrences ks else first_occurrences ks @ [k])"
  by (simp add: first_occurrences_def)

lemma first_occurrences_set: "set (first_occurrences ks) = set ks"
  by (simp add: first_occurrences_def)

lemma first_occurrences_distinct: "distinct (first_occurrences ks)"
  by (simp add: first_occurrences_def)

lemma group_push_map:
  assumes "distinct ks"
  shows "group_push (map (\<lambda>k'. (k', f k')) ks) k x =
           (if k \<in> set ks
            then map (\<lambda>k'. (k', if k' = k then f k' @ [x] else f k')) ks
            else map (\<lambda>k'. (k', f k')) ks @ [(k, [x])])"
  using assms by (induction ks) auto

text \<open>
  The dictionary built by the \<open>reduce\<close> holds, for each key in the order of first
  occurrence, the elements with that key in their original order.
\<close>

lemma group_by_filter:
  "group_by key xs =
     map (\<lambda>k. (k, filter (\<lambda>x. key x = k) xs)) (first_occurrences (map key xs))"
proof (induction xs rule: rev_induct)
  case Nil
  show ?case by (simp add: group_by_def first_occurrences_def)
next
  case (snoc x xs)
  have "group_by key (xs @ [x]) = group_push (group_by key xs) (key x) x"
    by (simp add: group_by_def)
  also have "\<dots> = group_push
      (map (\<lambda>k. (k, filter (\<lambda>y. key y = k) xs)) (first_occurrences (map key xs))) (key x) x"
    by (simp only: snoc.IH)
  also have "\<dots> = map (\<lambda>k. (k, filter (\<lambda>y. key y = k) (xs @ [x])))
                      (first_occurrences (map key (xs @ [x])))"
    by (subst group_push_map [OF first_occurrences_distinct])
       (auto simp: first_occurrences_snoc first_occurrences_set filter_empty_conv image_iff)
  finally show ?case .
qed

lemma foldl_append_item:
  "foldl (append_item fixed) acc items = acc @ concat (map (spec_item fixed) items)"
  by (induction items arbitrary: acc) (auto simp: append_item_def spec_item_def)

lemma append_group_section:
  "append_group fixed acc (t, chunks) = acc @ spec_section fixed t chunks"
  by (simp add: append_group_def spec_section_def foldl_append_item)

lemma foldl_append_group:
  "foldl (append_group fixed) acc groups =
     acc @ concat (map (\<lambda>(t, chunks). spec_section fixed t chunks) groups)"
  by (induction groups arbitrary: acc) (auto simp: append_group_section)

text \<open>
  The text that \<open>generateQueryContext\<close> builds: the heading and the timestamp
  line, the line \<open>## Relevant Information\<close>, and the sections.
\<close>

lemma query_context_content_format:
  "query_context_content fixed query stamp results =
     spec_heading query stamp @ ''## Relevant Information'' @ [CHR 0x0A, CHR 0x0A]
     @ spec_sections fixed results"
  by (simp add: query_context_content_def foldl_append_group group_by_filter spec_heading_def
      spec_sections_def comp_def)

lemma example_embedding:
  "generateEmbedding (openai_create example_environment) query = ([Request [truncate_input query]], Inr [1, 0])"
  by (simp add: generateEmbedding_def example_environment_def)

lemma example_search_p1:
  "search_rpc example_environment (store example_world) [1, 0] (Some ''p1'') (Num (6 / 10)) 20 =
     \<lparr>rpc_data = Some
        [\<lparr>r_id = 5, r_project_id = Some ''p1'', r_source_type = Code, r_file_path = Some ''g.ts'',
          r_chunk_content = ''eta'', r_contextual_content = None, r_metadata = None,
          similarity = Num (24 / 25)\<rparr>,
         \<lparr>r_id = 4, r_project_id = Some ''p1'', r_source_type = Code, r_file_path = Some ''e.ts'',
          r_chunk_content = ''epsilon'', r_contextual_content = None, r_metadata = None,
          similarity = Num (12 / 13)\<rparr>,
         \<lparr>r_id = 1, r_project_id = Some ''p1'', r_source_type = Docs, r_file_path = Some ''b.md'',
          r_chunk_content = ''beta'', r_contextual_content = None, r_metadata = None,
          similarity = Num (4 / 5)\<rparr>],
      rpc_error = None\<rparr>"
  by (simp add: example_environment_def example_world_def supabase_rpc_def search_similar_chunks_def
      candidate_rows_def example_db_def example_chunk_def unit_cosine_distance_def to_result_def
      float8_less_def)

lemma example_search_p3:
  "search_rpc example_environment (store example_world) [1, 0] (Some ''p3'') (Num (6 / 10)) 20 =
     \<lparr>rpc_data = Some [], rpc_error = None\<rparr>"
  by (simp add: example_environment_def example_world_def supabase_rpc_def search_similar_chunks_def
      candidate_rows_def example_db_def example_chunk_def unit_cosine_distance_def to_result_def
      float8_less_def)

lemma example_file_name:
  "path_join example_environment ''out'' (''query-context-'' @ show_nat (date_now example_environment) @ ''.md'')
     = ''out/query-context-1700000000000.md''"
  by (simp add: example_environment_def show_nat.simps digit_def)

text \<open>
  Claim C8, as the code has it. When the search returns a non-empty list of
  results, the context document that \<open>generateQueryContext\<close> writes, and stores
  in \<open>knowledge_contexts\<close>, consists of the heading
  \<open># Context for: "<query>"\<close>, the line \<open>Generated: <timestamp>\<close>, the heading
  \<open>## Relevant Information\<close>, and then one section
  \<open>### <SOURCE_TYPE in upper case> Sources\<close> per source type, in the order of first
  occurrence; in a section each result is \<open>#### Source <n>: <path>\<close> (with \<open>n\<close>
  counted from 1 within the section and \<open>Unknown\<close> for a missing or empty path),
  the line \<open>Similarity: <pct>%\<close> with \<open>pct\<close> the result of \<open>toFixed(1)\<close> on
  100 times the score, and the content of the chunk as it is between two lines of
  three backquotes.
\<close>

theorem generateQueryContext_document:
  assumes emb: "generateEmbedding (openai_create env) query = (tr0, Inr q)"
    and rpc: "search_rpc env (store w) q (Some pid) (Num (6 / 10)) 20
                = \<lparr>rpc_data = Some results, rpc_error = None\<rparr>"
    and ne: "results \<noteq> []"
    and wr: "writeFile_ok env
               (path_join env outputPath (''query-context-'' @ show_nat (date_now env) @ ''.md''))"
  shows "\<exists>tr w' doc path.
           generateQueryContext env w pid query outputPath = (tr, w', None)
         \<and> path = path_join env outputPath (''query-context-'' @ show_nat (date_now env) @ ''.md'')
         \<and> doc = spec_heading query (date_iso env)
                 @ ''## Relevant Information'' @ [CHR 0x0A, CHR 0x0A]
                 @ spec_sections (toFixed1 env) results
         \<and> files w' = (files w)(path \<mapsto> doc)
         \<and> knowledge_contexts (store w')
             = knowledge_contexts (store w)
               @ [(uuid_counter (store w),
                   \<lparr>kc_project_id = pid, context_type = ''query'',
                    title = ''Context for: '' @ query, kc_content = doc,
                    kc_file_path = path, tags = [''query'', ''generated'']\<rparr>)]
         \<and> document_chunks (store w') = document_chunks (store w)"
  using emb rpc ne wr
  by (simp add: generateQueryContext_def Let_def query_context_content_format
      insert_knowledge_context_def)

theorem generateQueryContext_document_witness:
  "\<exists>tr w'. generateQueryContext example_environment example_world ''p1'' ''search'' ''out''
             = (tr, w', None)
     \<and> files w' ''out/query-context-1700000000000.md''
         = Some (''# Context for: '' @ [CHR 0x22] @ ''search'' @ [CHR 0x22, CHR 0x0A, CHR 0x0A]
                 @ ''Generated: 2023-11-14T22:13:20.000Z'' @ [CHR 0x0A, CHR 0x0A]
                 @ ''## Relevant Information'' @ [CHR 0x0A, CHR 0x0A]
                 @ ''### CODE Sources'' @ [CHR 0x0A, CHR 0x0A]
                 @ ''#### Source 1: g.ts'' @ [CHR 0x0A]
                 @ ''Similarity: 96.0%'' @ [CHR 0x0A, CHR 0x0A]
                 @ ''```'' @ [CHR 0x0A] @ ''eta'' @ [CHR 0x0A] @ ''```'' @ [CHR 0x0A, CHR 0x0A]
                 @ ''#### Source 2: e.ts'' @ [CHR 0x0A]
                 @ ''Similarity: 92.3%'' @ [CHR 0x0A, CHR 0x0A]
                 @ ''```'' @ [CHR 0x0A] @ ''epsilon'' @ [CHR 0x0A] @ ''```'' @ [CHR 0x0A, CHR 0x0A]
                 @ ''### DOCS Sources'' @ [CHR 0x0A, CHR 0x0A]
                 @ ''#### Source 1: b.md'' @ [CHR 0x0A]
                 @ ''Similarity: 80.0%'' @ [CHR 0x0A, CHR 0x0A]
                 @ ''```'' @ [CHR 0x0A] @ ''beta'' @ [CHR 0x0A] @ ''```'' @ [CHR 0x0A, CHR 0x0A])"
proof -
  let ?results =
    "[\<lparr>r_id = 5, r_project_id = Some ''p1'', r_source_type = Code, r_file_path = Some ''g.ts'',
       r_chunk_content = ''eta'', r_contextual_content = None, r_metadata = None,
       similarity = Num (24 / 25)\<rparr>,
      \<lparr>r_id = 4, r_project_id = Some ''p1'', r_source_type = Code, r_file_path = Some ''e.ts'',
       r_chunk_content = ''epsilon'', r_contextual_content = None, r_metadata = None,
       similarity = Num (12 / 13)\<rparr>,
      \<lparr>r_id = 1, r_project_id = Some ''p1'', r_source_type = Docs, r_file_path = Some ''b.md'',
       r_chunk_content = ''beta'', r_contextual_content = None, r_metadata = None,
       similarity = Num (4 / 5)\<rparr>]"
  have ne: "?results \<noteq> []" by simp
  have wr: "writeFile_ok example_environment
              (path_join example_environment ''out''
                 (''query-context-'' @ show_nat (date_now example_environment) @ ''.md''))"
    by (simp add: example_environment_def)
  have sections: "spec_sections (toFixed1 example_environment) ?results
       = ''### CODE Sources'' @ [CHR 0x0A, CHR 0x0A]
         @ ''#### Source 1: g.ts'' @ [CHR 0x0A]
         @ ''Similarity: 96.0%'' @ [CHR 0x0A, CHR 0x0A]
         @ ''```'' @ [CHR 0x0A] @ ''eta'' @ [CHR 0x0A] @ ''```'' @ [CHR 0x0A, CHR 0x0A]
         @ ''#### Source 2: e.ts'' @ [CHR 0x0A]
         @ ''Similarity: 92.3%'' @ [CHR 0x0A, CHR 0x0A]
         @ ''```'' @ [CHR 0x0A] @ ''epsilon'' @ [CHR 0x0A] @ ''```'' @ [CHR 0x0A, CHR 0x0A]
         @ ''### DOCS Sources'' @ [CHR 0x0A, CHR 0x0A]
         @ ''#### Source 1: b.md'' @ [CHR 0x0A]
         @ ''Similarity: 80.0%'' @ [CHR 0x0A, CHR 0x0A]
         @ ''```'' @ [CHR 0x0A] @ ''beta'' @ [CHR 0x0A] @ ''```'' @ [CHR 0x0A, CHR 0x0A]"
    by (simp add: spec_sections_def first_occurrences_def spec_section_def spec_item_def
        origin_label_def toUpperCase_def upper_char_def example_environment_def show_nat.simps
        digit_def upt_conv_Cons)
  have heading: "spec_heading ''search'' (date_iso example_environment)
       = ''# Context for: '' @ [CHR 0x22] @ ''search'' @ [CHR 0x22, CHR 0x0A, CHR 0x0A]
         @ ''Generated: 2023-11-14T22:13:20.000Z'' @ [CHR 0x0A, CHR 0x0A]"
    by (simp add: spec_heading_def example_environment_def)
  from generateQueryContext_document
         [where query = "''search''" and outputPath = "''out''",
          OF example_embedding example_search_p1 ne wr]
  obtain tr w' where
    run: "generateQueryContext example_environment example_world ''p1'' ''search'' ''out''
            = (tr, w', None)"
    and f: "files w' = (files example_world)
              (path_join example_environment ''out''
                 (''query-context-'' @ show_nat (date_now example_environment) @ ''.md'')
               \<mapsto> spec_heading ''search'' (date_iso example_environment)
                   @ ''## Relevant Information'' @ [CHR 0x0A, CHR 0x0A]
                   @ spec_sections (toFixed1 example_environment) ?results)"
    by blast
  have "files w' ''out/query-context-1700000000000.md''
          = Some (spec_heading ''search'' (date_iso example_environment)
                   @ ''## Relevant Information'' @ [CHR 0x0A, CHR 0x0A]
                   @ spec_sections (toFixed1 example_environment) ?results)"
    unfolding f example_file_name by simp
  then show ?thesis
    unfolding sections heading using run by (intro exI [of _ tr] exI [of _ w']) simp
qed

text \<open>
  For one result, the text that the generator builds has the heading
  \<open>## Relevant Information\<close> between the timestamp line and the first section;
  a document made of heading, timestamp line and sections alone does not.
\<close>

theorem query_context_heading_counterexample:
  "query_context_content (toFixed1 example_environment) ''q'' ''T''
     [\<lparr>r_id = 5, r_project_id = Some ''p1'', r_source_type = Code, r_file_path = Some ''g.ts'',
       r_chunk_content = ''eta'', r_contextual_content = None, r_metadata = None,
       similarity = Num (24 / 25)\<rparr>]
   = ''# Context for: '' @ [CHR 0x22] @ ''q'' @ [CHR 0x22, CHR 0x0A, CHR 0x0A]
     @ ''Generated: T'' @ [CHR 0x0A, CHR 0x0A]
     @ ''## Relevant Information'' @ [CHR 0x0A, CHR 0x0A]
     @ ''### CODE Sources'' @ [CHR 0x0A, CHR 0x0A]
     @ ''#### Source 1: g.ts'' @ [CHR 0x0A]
     @ ''Similarity: 96.0%'' @ [CHR 0x0A, CHR 0x0A]
     @ ''```'' @ [CHR 0x0A] @ ''eta'' @ [CHR 0x0A] @ ''```'' @ [CHR 0x0A, CHR 0x0A]
   \<and> spec_context_document (toFixed1 example_environment) ''q'' ''T''
     [\<lparr>r_id = 5, r_project_id = Some ''p1'', r_source_type = Code, r_file_path = Some ''g.ts'',
       r_chunk_content = ''eta'', r_contextual_content = None, r_metadata = None,
       similarity = Num (24 / 25)\<rparr>]
   = ''# Context for: '' @ [CHR 0x22] @ ''q'' @ [CHR 0x22, CHR 0x0A, CHR 0x0A]
     @ ''Generated: T'' @ [CHR 0x0A, CHR 0x0A]
     @ ''### CODE Sources'' @ [CHR 0x0A, CHR 0x0A]
     @ ''#### Source 1: g.ts'' @ [CHR 0x0A]
     @ ''Similarity: 96.0%'' @ [CHR 0x0A, CHR 0x0A]
     @ ''```'' @ [CHR 0x0A] @ ''eta'' @ [CHR 0x0A] @ ''```'' @ [CHR 0x0A, CHR 0x0A]"
  by (simp add: query_context_content_def group_by_def append_group_def append_item_def
      spec_context_document_def spec_heading_def spec_sections_def first_occurrences_def
      spec_section_def spec_item_def origin_label_def toUpperCase_def upper_char_def
      example_environment_def show_nat.simps digit_def)

text \<open>
  Claim C10. When the embedding of the query succeeds and the search returns no
  error and no rows (an empty or a missing result set), \<open>generateQueryContext\<close>
  returns without an error, having logged one line; the files and the database,
  its table \<open>knowledge_contexts\<close> included, are what they were before the call.
\<close>

theorem generateQueryContext_no_results:
  assumes emb: "generateEmbedding (openai_create env) query = (tr0, Inr q)"
    and err: "rpc_error (search_rpc env (store w) q (Some pid) (Num (6 / 10)) 20) = None"
    and empty: "rpc_data (search_rpc env (store w) q (Some pid) (Num (6 / 10)) 20) = None
              \<or> rpc_data (search_rpc env (store w) q (Some pid) (Num (6 / 10)) 20) = Some []"
  shows "generateQueryContext env w pid query outputPath
           = (tr0 @ [ConsoleLog (''No relevant chunks found for query: '' @ query)], w, None)"
  using emb err empty
  by (auto simp: generateQueryContext_def Let_def)

theorem generateQueryContext_no_results_witness:
  "generateQueryContext example_environment example_world ''p3'' ''search'' ''out''
     = ([Request [''search''], ConsoleLog ''No relevant chunks found for query: search''],
        example_world, None)"
proof -
  have err: "rpc_error (search_rpc example_environment (store example_world) [1, 0] (Some ''p3'') (Num (6 / 10)) 20)
               = None"
    unfolding example_search_p3 by simp
  have empty: "rpc_data (search_rpc example_environment (store example_world) [1, 0] (Some ''p3'') (Num (6 / 10)) 20) = None
             \<or> rpc_data (search_rpc example_environment (store example_world) [1, 0] (Some ''p3'') (Num (6 / 10)) 20) = Some []"
    unfolding example_search_p3 by simp
  from generateQueryContext_no_results
         [where query = "''search''" and outputPath = "''out''", OF example_embedding err empty]
  show ?thesis by (simp add: truncate_input_def)
qed

section \<open>Properties of the ingestion script\<close>

lemma console_errors_append: "console_errors (a @ b) = console_errors a @ console_errors b"
  by (induction a rule: console_errors.induct) simp_all

text \<open>A write without an \<open>id\<close> appends a row or leaves the table as it is.\<close>

lemma upsert_without_id:
  "document_chunks (fst (upsert_document_chunk db None v)) =
     document_chunks db @
       (if (case embedding v of None \<Rightarrow> False | Some e \<Rightarrow> length e \<noteq> vector_dimension)
        then [] else [(uuid_counter db, v)])"
  by (simp add: upsert_document_chunk_def)

lemma ingest_document_rows:
  "map snd (document_chunks (snd (ingest_document api db doc))) =
     map snd (document_chunks db) @ embedded_row api doc"
  by (auto simp: ingest_document_def embedded_row_def generateEmbedding_def Let_def
      upsert_without_id chunk_of_document_def split: sum.splits list.splits)

lemma ingest_document_errors:
  "console_errors (fst (ingest_document api db doc)) = failure_log api doc"
  by (auto simp: ingest_document_def failure_log_def embeds_def generateEmbedding_def Let_def
      split: sum.splits list.splits)

lemma ingest_batch_rows:
  "map snd (document_chunks (snd (ingest_batch api db docs))) =
     map snd (document_chunks db) @ concat (map (embedded_row api) docs)"
proof (induction docs arbitrary: db)
  case Nil
  show ?case by simp
next
  case (Cons doc docs)
  obtain tr db' where d: "ingest_document api db doc = (tr, db')" by (cases "ingest_document api db doc")
  obtain tr' db'' where b: "ingest_batch api db' docs = (tr', db'')" by (cases "ingest_batch api db' docs")
  from ingest_document_rows [of api db doc] d
  have "map snd (document_chunks db') = map snd (document_chunks db) @ embedded_row api doc" by simp
  moreover from Cons.IH [of db'] b
  have "map snd (document_chunks db'') = map snd (document_chunks db') @ concat (map (embedded_row api) docs)"
    by simp
  ultimately show ?case by (simp add: d b)
qed

lemma ingest_batch_errors:
  "console_errors (fst (ingest_batch api db docs)) = concat (map (failure_log api) docs)"
proof (induction docs arbitrary: db)
  case Nil
  show ?case by simp
next
  case (Cons doc docs)
  obtain tr db' where d: "ingest_document api db doc = (tr, db')" by (cases "ingest_document api db doc")
  obtain tr' db'' where b: "ingest_batch api db' docs = (tr', db'')" by (cases "ingest_batch api db' docs")
  from ingest_document_errors [of api db doc] d have "console_errors tr = failure_log api doc" by simp
  moreover from Cons.IH [of db'] b have "console_errors tr' = concat (map (failure_log api) docs)" by simp
  ultimately show ?case by (simp add: d b console_errors_append)
qed

lemma drop_step: "take n (drop i xs) @ drop (i + n) xs = drop i xs"
  by (metis append_take_drop_id drop_drop add.commute)

text \<open>
  The loop over the batches of 50 handles every document once, in order: the rows
  written and the errors logged are those of the documents from index \<open>i\<close> on.
\<close>

lemma ingest_loop_result:
  "map snd (document_chunks (snd (ingest_loop api processors i db tr))) =
     map snd (document_chunks db) @ concat (map (embedded_row api) (drop i processors))
   \<and> console_errors (fst (ingest_loop api processors i db tr)) =
     console_errors tr @ concat (map (failure_log api) (drop i processors))"
proof (induction api processors i db tr rule: ingest_loop.induct)
  case (1 api processors i db tr)
  show ?case
  proof (cases "i < length processors")
    case False
    then show ?thesis by (simp add: ingest_loop.simps [of api processors i])
  next
    case True
    let ?batch = "take 50 (drop i processors)"
    let ?line = "''Processing batch '' @ show_nat (i div 50 + 1) @ ''/''
                    @ show_nat ((length processors + 49) div 50)"
    obtain tr' db' where b: "ingest_batch api db ?batch = (tr', db')"
      by (cases "ingest_batch api db ?batch")
    let ?tr = "tr @ [ConsoleLog ?line] @ tr' @ [Sleep 1000]"
    have step: "ingest_loop api processors i db tr = ingest_loop api processors (i + 50) db' ?tr"
      using True b by (simp add: ingest_loop.simps [of api processors i])
    have ih: "map snd (document_chunks (snd (ingest_loop api processors (i + 50) db' ?tr))) =
        map snd (document_chunks db') @ concat (map (embedded_row api) (drop (i + 50) processors))
      \<and> console_errors (fst (ingest_loop api processors (i + 50) db' ?tr)) =
        console_errors ?tr @ concat (map (failure_log api) (drop (i + 50) processors))"
      using "1.IH" [OF True refl refl b [symmetric]] .
    have rows: "map snd (document_chunks db') =
        map snd (document_chunks db) @ concat (map (embedded_row api) ?batch)"
      using ingest_batch_rows [of api db ?batch] b by simp
    have errs: "console_errors tr' = concat (map (failure_log api) ?batch)"
      using ingest_batch_errors [of api db ?batch] b by simp
    have r: "concat (map (embedded_row api) ?batch) @ concat (map (embedded_row api) (drop (i + 50) processors))
             = concat (map (embedded_row api) (drop i processors))"
      by (simp only: concat_append [symmetric] map_append [symmetric] drop_step)
    have e: "concat (map (failure_log api) ?batch) @ concat (map (failure_log api) (drop (i + 50) processors))
             = concat (map (failure_log api) (drop i processors))"
      by (simp only: concat_append [symmetric] map_append [symmetric] drop_step)
    show ?thesis
      unfolding step using ih rows errs r e by (simp add: console_errors_append)
  qed
qed

lemma embedded_row_accepted:
  assumes "\<forall>v. snd (generateEmbedding api (content doc)) = Inr v \<longrightarrow> length v = vector_dimension"
  shows "embedded_row api doc =
           (case snd (generateEmbedding api (content doc)) of
              Inl f \<Rightarrow> [] | Inr v \<Rightarrow> [chunk_of_document doc v])"
  using assms by (auto simp: embedded_row_def split: sum.splits)

text \<open>
  Claim C4, as the code has it. In a run of the ingestion over documents whose
  embeddings, when they succeed, have the dimension of the store: a document whose
  embedding fails is logged with its path and gets no row; every other document
  gets its row, in order, after the rows that were there; and the exit status is 0
  unless the generation of the context files, after the loop, throws. The status
  does not depend on whether a document failed.
\<close>

theorem ingestProject_document_failures:
  assumes dims: "\<forall>doc\<in>set processors. \<forall>v.
            snd (generateEmbedding api (content doc)) = Inr v \<longrightarrow> length v = vector_dimension"
  shows "\<exists>tr db'.
           ingestProject api (Inr (proj, processors)) generateContextFiles db
             = (tr, db', if generateContextFiles (project_uuid proj) db' = None then 0 else 1)
         \<and> map snd (document_chunks db')
             = map snd (document_chunks db)
               @ concat (map (\<lambda>doc. case snd (generateEmbedding api (content doc)) of
                                       Inl f \<Rightarrow> [] | Inr v \<Rightarrow> [chunk_of_document doc v])
                           processors)
         \<and> console_errors tr
             = concat (map (failure_log api) processors)
               @ (if generateContextFiles (project_uuid proj) db' = None then [] else [''Error during ingestion:''])"
proof -
  let ?start = "[ConsoleLog ''Starting project ingestion...'',
                 ConsoleLog (''Processing '' @ show_nat (length processors) @ '' documents...'')]"
  obtain tr0 db' where loop: "ingest_loop api processors 0 db ?start = (tr0, db')"
    by (cases "ingest_loop api processors 0 db ?start")
  from ingest_loop_result [of api processors 0 db ?start] loop
  have rows0: "map snd (document_chunks db')
                 = map snd (document_chunks db) @ concat (map (embedded_row api) processors)"
    and errs0: "console_errors tr0 = concat (map (failure_log api) processors)"
    by simp_all
  have "map (embedded_row api) processors
          = map (\<lambda>doc. case snd (generateEmbedding api (content doc)) of
                          Inl f \<Rightarrow> [] | Inr v \<Rightarrow> [chunk_of_document doc v]) processors"
    using dims by (intro map_cong refl embedded_row_accepted) blast
  with rows0 have rows: "map snd (document_chunks db')
             = map snd (document_chunks db)
               @ concat (map (\<lambda>doc. case snd (generateEmbedding api (content doc)) of
                                       Inl f \<Rightarrow> [] | Inr v \<Rightarrow> [chunk_of_document doc v])
                           processors)"
    by simp
  show ?thesis
  proof (cases "generateContextFiles (project_uuid proj) db'")
    case None
    then have "ingestProject api (Inr (proj, processors)) generateContextFiles db
                 = (tr0 @ [ConsoleLog ''Generating knowledge base files...'',
                           ConsoleLog (''Successfully ingested project: '' @ project_name proj),
                           ConsoleLog (''Knowledge base files generated in: knowledge-base/contexts/''
                                       @ project_uuid proj)],
                    db', 0)"
      by (simp only: ingestProject_def sum.case loop prod.case option.case)
    with None rows errs0 show ?thesis by (simp add: console_errors_append)
  next
    case (Some e)
    then have "ingestProject api (Inr (proj, processors)) generateContextFiles db
                 = (tr0 @ [ConsoleLog ''Generating knowledge base files...'',
                           ConsoleError ''Error during ingestion:''], db', 1)"
      by (simp only: ingestProject_def sum.case loop prod.case option.case)
    with Some rows errs0 show ?thesis by (simp add: console_errors_append)
  qed
qed

lemma example_api_embedding:
  "generateEmbedding example_api t =
     (if truncate_input t = ''bad''
      then ([Request [''bad''], ConsoleError ''Error generating embedding:''],
            Inl (RequestFailed ''rate limit''))
      else ([Request [truncate_input t]], Inr (replicate 1536 (real (length (truncate_input t))))))"
  by (simp add: generateEmbedding_def example_api_def)

lemma example_run:
  "ingestProject example_api (Inr (example_project, example_documents)) no_throw empty_db =
     ([ConsoleLog ''Starting project ingestion...'', ConsoleLog ''Processing 3 documents...'',
       ConsoleLog ''Processing batch 1/1'',
       Request [''alpha''],
       Request [''bad''], ConsoleError ''Error generating embedding:'',
       ConsoleError ''Error processing document b.ts:'',
       Request [''gamma''],
       Sleep 1000,
       ConsoleLog ''Generating knowledge base files...'',
       ConsoleLog ''Successfully ingested project: demo'',
       ConsoleLog ''Knowledge base files generated in: knowledge-base/contexts/p1''],
      \<lparr>document_chunks =
         [(0, chunk_of_document (example_document ''a.ts'' ''alpha'') (replicate 1536 5)),
          (1, chunk_of_document (example_document ''c.ts'' ''gamma'') (replicate 1536 5))],
       knowledge_contexts = [], uuid_counter = 2\<rparr>,
      0)"
  by (simp add: ingestProject_def ingest_loop.simps ingest_document_def example_api_embedding
      example_documents_def example_document_def example_project_def no_throw_def empty_db_def
      upsert_document_chunk_def
      chunk_of_document_def vector_dimension_def show_nat.simps digit_def truncate_input_def)

theorem ingestProject_document_failures_witness:
  "\<exists>tr db'. ingestProject example_api (Inr (example_project, example_documents)) no_throw empty_db = (tr, db', 0)
      \<and> map (\<lambda>(i, row). (file_path row, chunk_content row)) (document_chunks db')
          = [(Some ''a.ts'', ''alpha''), (Some ''c.ts'', ''gamma'')]
      \<and> console_errors tr
          = [''Error generating embedding:'', ''Error processing document b.ts:'']"
proof -
  have dims: "\<forall>doc\<in>set example_documents. \<forall>v.
            snd (generateEmbedding example_api (content doc)) = Inr v \<longrightarrow> length v = vector_dimension"
    by (auto simp: example_documents_def example_document_def example_api_embedding
        vector_dimension_def split: if_splits)
  from ingestProject_document_failures [OF dims, of example_project no_throw empty_db]
  obtain tr db' where
    run: "ingestProject example_api (Inr (example_project, example_documents)) no_throw empty_db
            = (tr, db', if no_throw (project_uuid example_project) db' = None then 0 else 1)"
    by blast
  with example_run show ?thesis
    by (simp add: no_throw_def chunk_of_document_def example_document_def)
qed

text \<open>
  A run in which the document \<open>b.ts\<close> fails to embed and a run of the two other
  documents alone, in which nothing fails, end with the same exit status 0.
\<close>

theorem ingestProject_exit_status_counterexample:
  "(case ingestProject example_api (Inr (example_project, example_documents)) no_throw empty_db of
      (tr, db', status) \<Rightarrow> (console_errors tr, status))
     = ([''Error generating embedding:'', ''Error processing document b.ts:''], 0)
   \<and> (case ingestProject example_api
             (Inr (example_project,
                   [example_document ''a.ts'' ''alpha'', example_document ''c.ts'' ''gamma'']))
             no_throw empty_db of
      (tr, db', status) \<Rightarrow> (console_errors tr, status))
     = ([], 0)"
  by (simp add: ingestProject_def ingest_loop.simps ingest_document_def example_api_embedding
      example_documents_def example_document_def example_project_def no_throw_def empty_db_def
      upsert_document_chunk_def
      chunk_of_document_def vector_dimension_def show_nat.simps digit_def truncate_input_def)

text \<open>
  Claim C1 at the input where it fails. The file \<open>a.ts\<close> of project \<open>p1\<close> is
  ingested with the content \<open>version 1\<close> and then again with the content
  \<open>version 2\<close>. The table then holds two chunks for (\<open>p1\<close>, \<open>a.ts\<close>): the row of
  the first ingestion, unchanged, and the row of the second.
\<close>

theorem reingest_same_path_duplicates:
  "(case ingestProject example_api (Inr (example_project, [example_document ''a.ts'' ''version 1''])) no_throw
          empty_db of
      (tr1, db1, status1) \<Rightarrow>
        (case ingestProject example_api (Inr (example_project, [example_document ''a.ts'' ''version 2''])) no_throw
                db1 of
           (tr2, db2, status2) \<Rightarrow>
             map (\<lambda>(i, row). (i, project_id row, file_path row, chunk_content row))
               (document_chunks db2)))
   = [(0, Some ''p1'', Some ''a.ts'', ''version 1''), (1, Some ''p1'', Some ''a.ts'', ''version 2'')]"
  by (simp add: ingestProject_def ingest_loop.simps ingest_document_def example_api_embedding
      example_document_def example_project_def no_throw_def empty_db_def upsert_document_chunk_def
      chunk_of_document_def vector_dimension_def show_nat.simps digit_def truncate_input_def)

text \<open>
  In general, the ingestion never replaces a row: the rows that were in the table
  are still there, in place, after any run.
\<close>

lemma ingestProject_keeps_rows:
  "take (length (document_chunks db))
     (map snd (document_chunks (fst (snd (ingestProject api prepared generateContextFiles db)))))
   = map snd (document_chunks db)"
proof (cases prepared)
  case (Inl e)
  then show ?thesis by (simp add: ingestProject_def)
next
  case (Inr pair)
  obtain proj processors where pair: "pair = (proj, processors)" by (cases pair)
  let ?start = "[ConsoleLog ''Starting project ingestion...'',
                 ConsoleLog (''Processing '' @ show_nat (length processors) @ '' documents...'')]"
  obtain tr0 db' where loop: "ingest_loop api processors 0 db ?start = (tr0, db')"
    by (cases "ingest_loop api processors 0 db ?start")
  from ingest_loop_result [of api processors 0 db ?start] loop
  have "map snd (document_chunks db')
          = map snd (document_chunks db) @ concat (map (embedded_row api) processors)"
    by simp
  moreover have "fst (snd (ingestProject api prepared generateContextFiles db)) = db'"
    by (cases "generateContextFiles (project_uuid proj) db'")
       (simp_all only: ingestProject_def Inr pair sum.case loop prod.case option.case fst_conv snd_conv)
  ultimately show ?thesis by simp
qed

end
